theory Spec2Isabelle
  imports Main "HOL-Library.AList" "HOL-Library.Multiset"
begin

section \<open>JavaScript values\<close>

text \<open>
  The content store handles JSON-like documents. A value is one of the JavaScript
  kinds that occur in node options and node fields. Numbers are the integral ones
  (NaN, infinities and fractions are left out), functions and symbols do not occur.
  An object is the list of its own enumerable properties in enumeration order
  (\<open>for ... in\<close>, \<open>Object.keys\<close>); a well-formed object has distinct keys.
\<close>

datatype jsval =
    JUndefined
  | JNull
  | JBool bool
  | JNum int
  | JStr string
  | JArr "jsval list"
  | JObj "(string \<times> jsval) list"

type_synonym obj = "(string \<times> jsval) list"

text \<open>ToBoolean: what \<open>!value\<close>, \<open>a || b\<close> and \<open>if (value)\<close> test.\<close>

fun truthy :: "jsval \<Rightarrow> bool" where
  "truthy JUndefined = False"
| "truthy JNull = False"
| "truthy (JBool b) = b"
| "truthy (JNum n) = (n \<noteq> 0)"
| "truthy (JStr s) = (s \<noteq> [])"
| "truthy (JArr xs) = True"
| "truthy (JObj kvs) = True"

text \<open>\<open>a || b\<close>: the first operand when it is truthy, else the second.\<close>

definition js_or :: "jsval \<Rightarrow> jsval \<Rightarrow> jsval" where
  "js_or a b = (if truthy a then a else b)"

text \<open>\<open>obj[key]\<close> on an object: \<open>undefined\<close> for a missing key.\<close>

definition obj_get :: "obj \<Rightarrow> string \<Rightarrow> jsval" where
  "obj_get kvs k = (case map_of kvs k of None \<Rightarrow> JUndefined | Some v \<Rightarrow> v)"

text \<open>
  \<open>obj[key] = v\<close>: an existing key keeps its place in the enumeration order, a new
  key is appended. This is \<^const>\<open>AList.update\<close>.
\<close>

definition obj_set :: "obj \<Rightarrow> string \<Rightarrow> jsval \<Rightarrow> obj" where
  "obj_set kvs k v = AList.update k v kvs"

definition hasOwnProperty :: "obj \<Rightarrow> string \<Rightarrow> bool" where
  "hasOwnProperty kvs k = (k \<in> set (map fst kvs))"

text \<open>\<open>key.startsWith('__')\<close>\<close>

fun isInternalKey :: "string \<Rightarrow> bool" where
  "isInternalKey (a # b # _) = (a = CHR ''_'' \<and> b = CHR ''_'')"
| "isInternalKey _ = False"

section \<open>Type inference (\<open>inferTypes\<close>, \<open>inferType\<close>)\<close>

text \<open>
  The GraphQL types the inference builds, and the field descriptors
  \<open>{ type, resolve }\<close> it returns. \<open>dateType\<close> comes from \<open>./types/date\<close>; it is
  the descriptor of the date scalar with its own resolver.
\<close>

datatype resolver = DefaultResolve | ArrayOrEmpty | DateResolve

datatype gqltype =
    GraphQLString
  | GraphQLBoolean
  | GraphQLInt
  | GraphQLFloat
  | GraphQLDate
  | GraphQLList gqltype
  | GraphQLObjectType string "(string \<times> field option) list"
and field = Field (ftype: gqltype) (fresolve: resolver)

definition dateType :: field where
  "dateType = Field GraphQLDate DateResolve"

text \<open>
  \<open>(x | 0) === x\<close>: ToInt32 wraps the integer into the signed 32-bit range.
\<close>

definition toInt32 :: "int \<Rightarrow> int" where
  "toInt32 x = (let m = x mod 2 ^ 32 in if m \<ge> 2 ^ 31 then m - 2 ^ 32 else m)"

definition is32BitInt :: "int \<Rightarrow> bool" where
  "is32BitInt x = (toInt32 x = x)"

text \<open>
  The functions of other modules that inference calls: \<open>isDate\<close> of
  \<open>./types/date\<close> and the pascal-casing \<open>camelCase(s, { pascalCase: true })\<close>.
\<close>

record infer_env =
  isDate :: "jsval \<Rightarrow> bool"
  pascalCase :: "string \<Rightarrow> string"

text \<open>\<open>createTypeName\<close>: the template string \<open>`${nodeType} ${key}`\<close>, pascal-cased.\<close>

definition createTypeName :: "infer_env \<Rightarrow> string \<Rightarrow> string \<Rightarrow> string" where
  "createTypeName E nodeType key = pascalCase E (nodeType @ '' '' @ key)"

text \<open>
  \<open>inferType\<close> with \<open>createObjectType\<close>. \<open>value[0]\<close> of an empty array is
  \<open>undefined\<close>. \<open>inferObject\<close> is the \<open>mapValues\<close> of \<open>createObjectType\<close>: one entry
  per key, \<open>null\<close> entries included. The \<open>default\<close> branch of the \<open>switch\<close> is for
  functions and symbols only.
\<close>

fun inferType :: "infer_env \<Rightarrow> jsval \<Rightarrow> string \<Rightarrow> string \<Rightarrow> field option"
and inferObject :: "infer_env \<Rightarrow> obj \<Rightarrow> string \<Rightarrow> (string \<times> field option) list"
where
  "inferType E JUndefined key nodeType = None"
| "inferType E JNull key nodeType = None"
| "inferType E (JArr xs) key nodeType =
     (case (case xs of [] \<Rightarrow> None | x # _ \<Rightarrow> inferType E x key nodeType) of
        None \<Rightarrow> None
      | Some t \<Rightarrow> Some (Field (GraphQLList (ftype t)) ArrayOrEmpty))"
| "inferType E (JBool b) key nodeType =
     (if \<not> b then None
      else if isDate E (JBool b) then Some dateType
      else Some (Field GraphQLBoolean DefaultResolve))"
| "inferType E (JNum n) key nodeType =
     (if n = 0 then None
      else if isDate E (JNum n) then Some dateType
      else Some (Field (if is32BitInt n then GraphQLInt else GraphQLFloat) DefaultResolve))"
| "inferType E (JStr s) key nodeType =
     (if s = [] then None
      else if isDate E (JStr s) then Some dateType
      else Some (Field GraphQLString DefaultResolve))"
| "inferType E (JObj kvs) key nodeType =
     (if isDate E (JObj kvs) then Some dateType
      else Some (Field (GraphQLObjectType (createTypeName E nodeType key)
                   (inferObject E kvs (createTypeName E nodeType key))) DefaultResolve))"
| "inferObject E [] name = []"
| "inferObject E ((k, v) # kvs) name = (k, inferType E v k name) # inferObject E kvs name"

text \<open>
  \<open>inferTypes\<close>: the loop over the nodes, and inside it the loop over the keys of
  \<open>node.fields\<close>. Only the \<open>fields\<close> of a node are read, so a node is given by them.
\<close>

fun inferNodeFields :: "infer_env \<Rightarrow> obj \<Rightarrow> string \<Rightarrow> (string \<times> field) list \<Rightarrow> (string \<times> field) list" where
  "inferNodeFields E [] nodeType res = res"
| "inferNodeFields E ((key, v) # kvs) nodeType res =
     inferNodeFields E kvs nodeType
       (case inferType E v key nodeType of
          None \<Rightarrow> res
        | Some t \<Rightarrow> AList.update key t res)"

fun inferTypesFrom :: "infer_env \<Rightarrow> obj list \<Rightarrow> string \<Rightarrow> (string \<times> field) list \<Rightarrow> (string \<times> field) list" where
  "inferTypesFrom E [] nodeType res = res"
| "inferTypesFrom E (node_fields # nodes) nodeType res =
     inferTypesFrom E nodes nodeType (inferNodeFields E node_fields nodeType res)"

definition inferTypes :: "infer_env \<Rightarrow> obj list \<Rightarrow> string \<Rightarrow> (string \<times> field) list" where
  "inferTypes E nodes nodeType = inferTypesFrom E nodes nodeType []"

section \<open>Strings and property keys\<close>

text \<open>
  A \<^typ>\<open>char\<close> stands for one code unit of a JavaScript string. The character
  classes are those of the regular expressions \<open>[^a-zA-Z0-9_]\<close> and \<open>^([0-9])\<close>.
\<close>

definition isDigit :: "char \<Rightarrow> bool" where
  "isDigit c = (c \<in> set ''0123456789'')"

definition isLetter :: "char \<Rightarrow> bool" where
  "isLetter c = (c \<in> set ''abcdefghijklmnopqrstuvwxyzABCDEFGHIJKLMNOPQRSTUVWXYZ'')"

definition validKeyChar :: "char \<Rightarrow> bool" where
  "validKeyChar c = (isLetter c \<or> isDigit c \<or> c = CHR ''_'')"

fun string_of_nat :: "nat \<Rightarrow> string" where
  "string_of_nat n =
     (if n < 10 then [''0123456789'' ! n]
      else string_of_nat (n div 10) @ [''0123456789'' ! (n mod 10)])"

declare string_of_nat.simps [simp del]

definition string_of_int :: "int \<Rightarrow> string" where
  "string_of_int i = (if i < 0 then CHR ''-'' # string_of_nat (nat (- i)) else string_of_nat (nat i))"

text \<open>
  ToString, as applied by \<open>String(v)\<close>, by string concatenation and by a computed
  property key \<open>o[v]\<close>. An array is joined with commas, \<open>null\<close> and \<open>undefined\<close>
  elements giving the empty string.
\<close>

fun to_str :: "jsval \<Rightarrow> string"
and join_str :: "jsval list \<Rightarrow> string"
where
  "to_str JUndefined = ''undefined''"
| "to_str JNull = ''null''"
| "to_str (JBool b) = (if b then ''true'' else ''false'')"
| "to_str (JNum n) = string_of_int n"
| "to_str (JStr s) = s"
| "to_str (JArr xs) = join_str xs"
| "to_str (JObj kvs) = ''[object Object]''"
| "join_str [] = []"
| "join_str (x # xs) =
     (if x = JUndefined \<or> x = JNull then [] else to_str x) @
     (if xs = [] then [] else CHR '','' # join_str xs)"

section \<open>Options, nodes and the collaborators of a content type\<close>

text \<open>
  The \<open>options\<close> argument of \<open>addNode\<close>, \<open>createNode\<close> and \<open>updateNode\<close>. A missing
  property is \<^const>\<open>JUndefined\<close>. \<open>fields\<close> and \<open>internal\<close> are objects when present.
\<close>

record internal_options =
  io_origin :: jsval
  io_mimeType :: jsval
  io_content :: jsval

record options =
  o_id :: jsval
  o_id_legacy :: jsval
  o_title :: jsval
  o_slug :: jsval
  o_path :: jsval
  o_date :: jsval
  o_content :: jsval
  o_excerpt :: jsval
  o_fields :: "obj option"
  o_internal :: "internal_options option"

text \<open>What a transformer's \<open>parse\<close> returns; every property is optional.\<close>

record parse_result =
  r_title :: jsval
  r_slug :: jsval
  r_path :: jsval
  r_date :: jsval
  r_content :: jsval
  r_excerpt :: jsval
  r_fields :: "obj option"

datatype error =
    NoTransformer string
  | TypeError
  | DuplicateKey string

text \<open>
  The packages and modules a content type calls and that are not part of it:
  \<open>camelcase\<close>, \<open>@sindresorhus/slugify\<close>, the md5 digest of \<open>crypto\<close>,
  \<open>JSON.stringify\<close>, \<open>moment.utc(date, ISO_8601_FORMAT, true).format(f)\<close>,
  \<open>isResolvablePath\<close> of \<open>../utils\<close>, \<open>pluginStore._app.resolveFilePath\<close>, the
  transformer registry \<open>pluginStore._transformers\<close> (a transformer is its \<open>parse\<close>),
  and the clock (\<open>Date.now()\<close>, \<open>new Date().toISOString()\<close>).
\<close>

record env =
  camelCase :: "string \<Rightarrow> string"
  slugifyLib :: "jsval \<Rightarrow> error + string"
  md5 :: "string \<Rightarrow> string"
  JSON_stringify :: "options \<Rightarrow> string"
  moment_format :: "jsval \<Rightarrow> string \<Rightarrow> string"
  isResolvablePath :: "string \<Rightarrow> bool"
  app_resolveFilePath :: "jsval \<Rightarrow> string \<Rightarrow> jsval \<Rightarrow> string"
  transformers :: "string \<Rightarrow> (jsval \<Rightarrow> parse_result) option"
  Date_now :: int
  Date_toISOString :: string

text \<open>
  The configuration of one content type (\<open>this.options\<close> and
  \<open>this.resolveAbsolutePaths\<close>): its name, the legacy reference fields (field name
  and the \<open>typeName\<close> it refers to), and the route template.
\<close>

record ctype =
  typeName :: string
  refs :: "(string \<times> jsval) list"
  routeKeys :: "string list"
  makePathFn :: "obj \<Rightarrow> string"
  resolveAbsolutePaths :: jsval

record internal =
  i_origin :: jsval
  i_mimeType :: jsval
  i_content :: jsval
  i_timestamp :: int

record node =
  n_id :: jsval
  n_typeName :: string
  n_internal :: internal
  n_id_legacy :: jsval
  n_uid :: string
  n_title :: jsval
  n_date :: jsval
  n_slug :: jsval
  n_content :: jsval
  n_excerpt :: jsval
  n_withPath :: bool
  n_fields :: obj
  n_path :: string

section \<open>Field normalisation (\<open>processNodeFields\<close>)\<close>

text \<open>
  The belongs-to map \<open>belongsTo[typeName][id] = true\<close>: an object of objects.
  Property names inherited from \<open>Object.prototype\<close> are not modelled.
\<close>

type_synonym belongsTo = "(string \<times> obj) list"


definition processRefField :: "jsval \<Rightarrow> jsval \<Rightarrow> belongsTo \<Rightarrow> belongsTo" where
  "processRefField typeName' id' bt =
     (let t = to_str typeName';
          inner = (case map_of bt t of None \<Rightarrow> [] | Some m \<Rightarrow> m)
      in AList.update t
           (case id' of
              JArr ids \<Rightarrow> foldl (\<lambda>m i. obj_set m (to_str i) (JBool True)) inner ids
            | _ \<Rightarrow> obj_set inner (to_str id') (JBool True))
           bt)"

text \<open>\<open>isRefField\<close>; it is called on non-null values of type \<open>object\<close> only.\<close>

fun isRefField :: "jsval \<Rightarrow> bool" where
  "isRefField (JObj kvs) =
     (length kvs = 2 \<and> hasOwnProperty kvs ''typeName'' \<and> hasOwnProperty kvs ''id'')"
| "isRefField _ = False"

text \<open>
  The three steps of \<open>createKey\<close>: \<open>key.replace(nonValidCharsRE, '_')\<close>,
  \<open>camelCase(key)\<close> and \<open>key.replace(leadingNumberRE, '_$1')\<close>.
\<close>

definition replaceNonValidChars :: "string \<Rightarrow> string" where
  "replaceNonValidChars key = map (\<lambda>ch. if validKeyChar ch then ch else CHR ''_'') key"

definition prefixLeadingNumber :: "string \<Rightarrow> string" where
  "prefixLeadingNumber key =
     (case key of
        [] \<Rightarrow> key
      | ch # cs \<Rightarrow> if isDigit ch then CHR ''_'' # key else key)"

definition createKey :: "env \<Rightarrow> string \<Rightarrow> string" where
  "createKey E key = prefixLeadingNumber (camelCase E (replaceNonValidChars key))"

definition resolveFilePath :: "env \<Rightarrow> ctype \<Rightarrow> jsval \<Rightarrow> string \<Rightarrow> string" where
  "resolveFilePath E c origin' path' =
     app_resolveFilePath E origin' path' (resolveAbsolutePaths c)"

text \<open>The reference bookkeeping of \<open>processField\<close> for a value that is a reference.\<close>

definition recordRef :: "obj \<Rightarrow> belongsTo \<Rightarrow> belongsTo" where
  "recordRef kvs bt =
     (case obj_get kvs ''typeName'' of
        JArr ts \<Rightarrow> foldl (\<lambda>b t. processRefField t (obj_get kvs ''id'') b) bt ts
      | t \<Rightarrow> processRefField t (obj_get kvs ''id'') bt)"

text \<open>
  \<open>processField\<close> and \<open>processFields\<close>, with the \<open>belongsTo\<close> object that the closures
  share passed along. \<open>processFields\<close> is the \<open>for ... in\<close> loop with its result
  \<open>res\<close>; over an array the keys are the indices (\<open>processIndexed\<close>).
  \<open>processValue\<close> is the right-hand side of the assignment in the loop,
  \<open>Array.isArray(fields[key]) ? fields[key].map(value => processField(value)) :
  processField(fields[key])\<close>, and \<open>processElems\<close> the \<open>map\<close> in it.
\<close>

function (sequential)
    processField :: "env \<Rightarrow> ctype \<Rightarrow> jsval \<Rightarrow> jsval \<Rightarrow> belongsTo \<Rightarrow> jsval \<times> belongsTo"
and processValue :: "env \<Rightarrow> ctype \<Rightarrow> jsval \<Rightarrow> jsval \<Rightarrow> belongsTo \<Rightarrow> jsval \<times> belongsTo"
and processFields :: "env \<Rightarrow> ctype \<Rightarrow> jsval \<Rightarrow> obj \<Rightarrow> obj \<Rightarrow> belongsTo \<Rightarrow> obj \<times> belongsTo"
and processIndexed :: "env \<Rightarrow> ctype \<Rightarrow> jsval \<Rightarrow> nat \<Rightarrow> jsval list \<Rightarrow> obj \<Rightarrow> belongsTo \<Rightarrow> obj \<times> belongsTo"
and processElems :: "env \<Rightarrow> ctype \<Rightarrow> jsval \<Rightarrow> jsval list \<Rightarrow> belongsTo \<Rightarrow> jsval list \<times> belongsTo"
where
  "processField E c origin' JUndefined bt = (JUndefined, bt)"
| "processField E c origin' JNull bt = (JNull, bt)"
| "processField E c origin' (JObj kvs) bt =
     (let bt1 = (if isRefField (JObj kvs) then recordRef kvs bt else bt);
          (res, bt2) = processFields E c origin' kvs [] bt1
      in (JObj res, bt2))"
| "processField E c origin' (JArr xs) bt =
     (let (res, bt2) = processIndexed E c origin' 0 xs [] bt
      in (JObj res, bt2))"
| "processField E c origin' (JStr s) bt =
     (if isResolvablePath E s then (JStr (resolveFilePath E c origin' s), bt)
      else (JStr s, bt))"
| "processField E c origin' (JBool b) bt = (JBool b, bt)"
| "processField E c origin' (JNum n) bt = (JNum n, bt)"
| "processValue E c origin' (JArr xs) bt =
     (let (ys, bt1) = processElems E c origin' xs bt in (JArr ys, bt1))"
| "processValue E c origin' v bt = processField E c origin' v bt"
| "processFields E c origin' [] res bt = (res, bt)"
| "processFields E c origin' ((key, v) # rest) res bt =
     (if isInternalKey key then processFields E c origin' rest (obj_set res key v) bt
      else
        (let (w, bt1) = processValue E c origin' v bt
         in processFields E c origin' rest (obj_set res (createKey E key) w) bt1))"
| "processIndexed E c origin' i [] res bt = (res, bt)"
| "processIndexed E c origin' i (v # rest) res bt =
     (let (w, bt1) = processValue E c origin' v bt
      in processIndexed E c origin' (Suc i) rest
           (obj_set res (createKey E (string_of_nat i)) w) bt1)"
| "processElems E c origin' [] bt = ([], bt)"
| "processElems E c origin' (v # rest) bt =
     (let (w, bt1) = processField E c origin' v bt;
          (ws, bt2) = processElems E c origin' rest bt1
      in (w # ws, bt2))"
  by pat_completeness auto

termination
  by (relation "measure (\<lambda>x. case x of
         Inl (Inl (E, c, origin', v, bt)) \<Rightarrow> 2 * size v
       | Inl (Inr (E, c, origin', v, bt)) \<Rightarrow> 2 * size v + 1
       | Inr (Inl (E, c, origin', kvs, res, bt)) \<Rightarrow> 2 * size_list (size_prod (\<lambda>_. 0) size) kvs
       | Inr (Inr (Inl (E, c, origin', i, xs, res, bt))) \<Rightarrow> 2 * size_list size xs
       | Inr (Inr (Inr (E, c, origin', xs, bt))) \<Rightarrow> 2 * size_list size xs)") auto

text \<open>
  \<open>processNodeFields(input = {}, origin = '')\<close>: the defaults apply to
  \<open>undefined\<close>; then the legacy loop over \<open>this.options.refs\<close>.
\<close>

definition processNodeFields :: "env \<Rightarrow> ctype \<Rightarrow> obj option \<Rightarrow> jsval \<Rightarrow> obj \<times> belongsTo" where
  "processNodeFields E c input origin' =
     (let origin1 = (if origin' = JUndefined then JStr [] else origin');
          (fields', bt) = processFields E c origin1 (case input of None \<Rightarrow> [] | Some kvs \<Rightarrow> kvs) [] []
      in (fields',
          foldl (\<lambda>b (fieldName, typeName'). processRefField typeName' (obj_get fields' fieldName) b)
            bt (refs c)))"

section \<open>Creating a node (\<open>createNode\<close>)\<close>

definition createInternals :: "env \<Rightarrow> internal_options option \<Rightarrow> internal" where
  "createInternals E io =
     (case io of
        None \<Rightarrow> \<lparr>i_origin = JUndefined, i_mimeType = JUndefined, i_content = JUndefined,
                 i_timestamp = Date_now E\<rparr>
      | Some i \<Rightarrow> \<lparr>i_origin = io_origin i, i_mimeType = io_mimeType i, i_content = io_content i,
                   i_timestamp = Date_now E\<rparr>)"

text \<open>\<open>transform\<close>: the registry is keyed by the mime type; a missing entry throws.\<close>

definition transform :: "env \<Rightarrow> internal \<Rightarrow> error + parse_result" where
  "transform E internal' =
     (case transformers E (to_str (i_mimeType internal')) of
        None \<Rightarrow> Inl (NoTransformer (to_str (i_mimeType internal')))
      | Some parse \<Rightarrow> Inr (parse (i_content internal')))"

text \<open>\<open>Object.assign(target, source)\<close> on two objects.\<close>

definition object_assign :: "obj \<Rightarrow> obj \<Rightarrow> obj" where
  "object_assign target source = foldl (\<lambda>t (k, v). obj_set t k v) target source"

text \<open>
  \<open>transformNodeOptions\<close> assigns into the caller's \<open>options\<close>; the updated options
  are returned.
\<close>

definition transformNodeOptions :: "env \<Rightarrow> options \<Rightarrow> internal \<Rightarrow> error + options" where
  "transformNodeOptions E opts internal' =
     (case transform E internal' of
        Inl e \<Rightarrow> Inl e
      | Inr result \<Rightarrow>
          Inr (opts\<lparr>
            o_title := (if truthy (r_title result) then r_title result else o_title opts),
            o_slug := (if truthy (r_slug result) then r_slug result else o_slug opts),
            o_path := (if truthy (r_path result) then r_path result else o_path opts),
            o_date := (if truthy (r_date result) then r_date result else o_date opts),
            o_content := (if truthy (r_content result) then r_content result else o_content opts),
            o_excerpt := (if truthy (r_excerpt result) then r_excerpt result else o_excerpt opts),
            o_fields := (case r_fields result of
                           None \<Rightarrow> o_fields opts
                         | Some rf \<Rightarrow>
                             Some (object_assign (case o_fields opts of None \<Rightarrow> [] | Some f \<Rightarrow> f) rf))\<rparr>))"

text \<open>
  The step of \<open>createNode\<close> and \<open>updateNode\<close> that runs the transformer when both
  \<open>internal.content\<close> and \<open>internal.mimeType\<close> are truthy.
\<close>

definition transformed :: "env \<Rightarrow> options \<Rightarrow> internal \<Rightarrow> error + options" where
  "transformed E opts internal' =
     (if truthy (i_content internal') \<and> truthy (i_mimeType internal')
      then transformNodeOptions E opts internal'
      else Inr opts)"

text \<open>\<open>slugify(string = '')\<close>: the default applies to \<open>undefined\<close>.\<close>

definition slugify :: "env \<Rightarrow> jsval \<Rightarrow> error + string" where
  "slugify E v = slugifyLib E (if v = JUndefined then JStr [] else v)"

definition makeUid :: "env \<Rightarrow> string \<Rightarrow> string" where
  "makeUid E orgId = md5 E orgId"

text \<open>
  \<open>node[keyName]\<close>, the property of a node by its name. While \<open>createNode\<close> computes
  the path, \<open>node.path\<close> is not set yet: the empty string stands for it, falsy
  like \<open>undefined\<close>.
\<close>

definition internal_obj :: "internal \<Rightarrow> jsval" where
  "internal_obj i =
     JObj [(''origin'', i_origin i), (''mimeType'', i_mimeType i), (''content'', i_content i),
           (''timestamp'', JNum (i_timestamp i))]"

definition node_prop :: "node \<Rightarrow> string \<Rightarrow> jsval" where
  "node_prop n k =
     (if k = ''id'' then n_id n
      else if k = ''typeName'' then JStr (n_typeName n)
      else if k = ''internal'' then internal_obj (n_internal n)
      else if k = ''_id'' then n_id_legacy n
      else if k = ''uid'' then JStr (n_uid n)
      else if k = ''title'' then n_title n
      else if k = ''date'' then n_date n
      else if k = ''slug'' then n_slug n
      else if k = ''content'' then n_content n
      else if k = ''excerpt'' then n_excerpt n
      else if k = ''withPath'' then JBool (n_withPath n)
      else if k = ''fields'' then JObj (n_fields n)
      else if k = ''path'' then JStr (n_path n)
      else JUndefined)"

text \<open>\<open>isObject\<close> of lodash.\<close>

fun isObject :: "jsval \<Rightarrow> bool" where
  "isObject (JObj kvs) = True"
| "isObject (JArr xs) = True"
| "isObject _ = False"

text \<open>
  The test of \<open>makePath\<close> for a reference: an object with own properties
  \<open>typeName\<close> and \<open>id\<close> whose \<open>id\<close> is not an array.
\<close>

fun isPathRef :: "jsval \<Rightarrow> bool" where
  "isPathRef (JObj kvs) =
     (hasOwnProperty kvs ''typeName'' \<and> hasOwnProperty kvs ''id'' \<and>
      (case obj_get kvs ''id'' of JArr _ \<Rightarrow> False | _ \<Rightarrow> True))"
| "isPathRef _ = False"

fun prop_of :: "jsval \<Rightarrow> string \<Rightarrow> jsval" where
  "prop_of (JObj kvs) k = obj_get kvs k"
| "prop_of _ k = JUndefined"

text \<open>The loop of \<open>makePath\<close> over \<open>routeKeys\<close>, building \<open>params\<close>.\<close>

fun makeParams :: "env \<Rightarrow> node \<Rightarrow> string list \<Rightarrow> obj \<Rightarrow> error + obj" where
  "makeParams E n [] params = Inr params"
| "makeParams E n (keyName # ks) params =
     (let fieldValue = js_or (obj_get (n_fields n) keyName) (js_or (node_prop n keyName) (JStr keyName))
      in if keyName = ''year''
           then makeParams E n ks (obj_set params ''year'' (JStr (moment_format E (n_date n) ''YYYY'')))
         else if keyName = ''month''
           then makeParams E n ks (obj_set params ''month'' (JStr (moment_format E (n_date n) ''MM'')))
         else if keyName = ''day''
           then makeParams E n ks (obj_set params ''day'' (JStr (moment_format E (n_date n) ''DD'')))
         else if isPathRef fieldValue
           then makeParams E n ks (obj_set params keyName (JStr (to_str (prop_of fieldValue ''id''))))
         else if \<not> isObject fieldValue \<and> \<not> truthy (obj_get params keyName)
           then (case slugify E (JStr (to_str fieldValue)) of
                   Inl e \<Rightarrow> Inl e
                 | Inr sl \<Rightarrow>
                     makeParams E n ks
                       (obj_set (obj_set params keyName (JStr sl)) (keyName @ ''_raw'')
                          (JStr (to_str fieldValue))))
         else makeParams E n ks params)"

definition makePath :: "env \<Rightarrow> ctype \<Rightarrow> node \<Rightarrow> error + string" where
  "makePath E c n =
     (case makeParams E n (routeKeys c) [] of
        Inl e \<Rightarrow> Inl e
      | Inr params \<Rightarrow> Inr (makePathFn c params))"

text \<open>\<open>'/' + options.path.replace(/^\/+/g, '')\<close>\<close>

definition normalizePath :: "string \<Rightarrow> string" where
  "normalizePath p = CHR ''/'' # dropWhile (\<lambda>ch. ch = CHR ''/'') p"

text \<open>\<open>options.slug || fields.slug || this.slugify(node.title)\<close>\<close>

definition slugOf :: "env \<Rightarrow> options \<Rightarrow> obj \<Rightarrow> jsval \<Rightarrow> error + jsval" where
  "slugOf E opts fields' title =
     (if truthy (o_slug opts) then Inr (o_slug opts)
      else if truthy (obj_get fields' ''slug'') then Inr (obj_get fields' ''slug'')
      else (case slugify E title of Inl e \<Rightarrow> Inl e | Inr sl \<Rightarrow> Inr (JStr sl)))"

text \<open>
  \<open>typeof options.path === 'string' ? '/' + ... : this.makePath(node)\<close>
\<close>

definition pathOf :: "env \<Rightarrow> ctype \<Rightarrow> options \<Rightarrow> node \<Rightarrow> error + string" where
  "pathOf E c opts n =
     (case o_path opts of
        JStr p \<Rightarrow> Inr (normalizePath p)
      | _ \<Rightarrow> makePath E c n)"

definition createNode :: "env \<Rightarrow> ctype \<Rightarrow> options \<Rightarrow> error + (node \<times> belongsTo)" where
  "createNode E c options0 =
     (let internal' = createInternals E (o_internal options0);
          id' = js_or (o_id options0)
                  (js_or (o_id_legacy options0) (JStr (makeUid E (JSON_stringify E options0))))
      in case transformed E options0 internal' of
           Inl e \<Rightarrow> Inl e
         | Inr opts \<Rightarrow>
             (let (fields', belongsTo') = processNodeFields E c (o_fields opts) (i_origin internal');
                  title = js_or (o_title opts) (js_or (obj_get fields' ''title'') id');
                  date = js_or (o_date opts) (js_or (obj_get fields' ''date'') (JStr (Date_toISOString E)))
              in case slugOf E opts fields' title of
                   Inl e \<Rightarrow> Inl e
                 | Inr slug \<Rightarrow>
                     (let n = \<lparr>n_id = id', n_typeName = typeName c, n_internal = internal',
                               n_id_legacy = id',
                               n_uid = md5 E (typeName c @ to_str id'),
                               n_title = title, n_date = date, n_slug = slug,
                               n_content = js_or (o_content opts) (js_or (obj_get fields' ''content'') (JStr [])),
                               n_excerpt = js_or (o_excerpt opts) (js_or (obj_get fields' ''excerpt'') (JStr [])),
                               n_withPath = (case o_path opts of JStr _ \<Rightarrow> True | _ \<Rightarrow> False),
                               n_fields = fields', n_path = []\<rparr>
                      in case pathOf E c opts n of
                           Inl e \<Rightarrow> Inl e
                         | Inr p \<Rightarrow> Inr (n\<lparr>n_path := p\<rparr>, belongsTo'))))"

section \<open>The store\<close>

text \<open>
  An entry of the cross-type index \<open>baseStore.index\<close>, as \<open>addNode\<close> builds it.
\<close>

record index_entry =
  e_type :: string
  e_path :: string
  e_typeName :: string
  e_uid :: string
  e_id :: jsval
  e_belongsTo :: belongsTo
  e_id_legacy :: jsval

text \<open>
  The state the operations of a content type read and write: the cross-type index,
  the collection of every content type under its name, the \<open>mimeTypes\<close> each content
  type has registered, the warnings logged (message and type name) and the
  \<open>change\<close> events emitted (type name, node, old node), both in order of occurrence.
\<close>

record store =
  index :: "index_entry list"
  collections :: "(string \<times> node list) list"
  mimeTypes :: "(string \<times> string list) list"
  warnings :: "(string \<times> string) list"
  events :: "(string \<times> node option \<times> node option) list"

definition collection :: "store \<Rightarrow> string \<Rightarrow> node list" where
  "collection s t = (case map_of (collections s) t of None \<Rightarrow> [] | Some ns \<Rightarrow> ns)"

definition set_collection :: "store \<Rightarrow> string \<Rightarrow> node list \<Rightarrow> store" where
  "set_collection s t ns = s\<lparr>collections := AList.update t ns (collections s)\<rparr>"

text \<open>
  Modelled from the spec: the cross-type index is created outside of these sources.
  Its \<open>insert\<close> is rejected (it throws) when an entry with the same \<open>path\<close> already
  exists; otherwise the entry is added.
\<close>

definition index_insert :: "index_entry \<Rightarrow> index_entry list \<Rightarrow> error + index_entry list" where
  "index_insert e idx =
     (if e_path e \<in> set (map e_path idx) then Inl (DuplicateKey ''path'') else Inr (idx @ [e]))"

text \<open>
  The collection of a content type is created with \<open>unique: ['id', 'path']\<close>: its
  \<open>insert\<close> throws on a node whose \<open>id\<close> or \<open>path\<close> is already there.
\<close>

definition collection_insert :: "node \<Rightarrow> node list \<Rightarrow> error + node list" where
  "collection_insert n ns =
     (if n_id n \<in> set (map n_id ns) then Inl (DuplicateKey ''id'')
      else if n_path n \<in> set (map n_path ns) then Inl (DuplicateKey ''path'')
      else Inr (ns @ [n]))"

text \<open>
  An operation ends with a value and the new state, or throws: then the state is
  the one reached when the error was thrown.
\<close>

type_synonym 'a outcome = "(error \<times> store) + ('a \<times> store)"

definition final_state :: "'a outcome \<Rightarrow> store" where
  "final_state r = (case r of Inl (e, s) \<Rightarrow> s | Inr (x, s) \<Rightarrow> s)"

section \<open>\<open>addNode\<close>\<close>

definition registered_mimeTypes :: "store \<Rightarrow> string \<Rightarrow> string list" where
  "registered_mimeTypes s t = (case map_of (mimeTypes s) t of None \<Rightarrow> [] | Some ms \<Rightarrow> ms)"

text \<open>
  \<open>if (mimeType && !mimeTypes.hasOwnProperty(mimeType)) mimeTypes[mimeType] = ...\<close>
\<close>

definition register_mimeType :: "ctype \<Rightarrow> jsval \<Rightarrow> store \<Rightarrow> store" where
  "register_mimeType c mimeType' s =
     (if truthy mimeType' \<and> to_str mimeType' \<notin> set (registered_mimeTypes s (typeName c))
      then s\<lparr>mimeTypes :=
              AList.update (typeName c) (registered_mimeTypes s (typeName c) @ [to_str mimeType'])
                (mimeTypes s)\<rparr>
      else s)"

definition entry_of :: "node \<Rightarrow> belongsTo \<Rightarrow> index_entry" where
  "entry_of n belongsTo' =
     \<lparr>e_type = ''node'', e_path = n_path n, e_typeName = n_typeName n, e_uid = n_uid n,
      e_id = n_id n, e_belongsTo = belongsTo', e_id_legacy = n_id n\<rparr>"

definition addNode :: "env \<Rightarrow> ctype \<Rightarrow> options \<Rightarrow> store \<Rightarrow> (node option) outcome" where
  "addNode E c opts s =
     (case createNode E c opts of
        Inl e \<Rightarrow> Inl (e, s)
      | Inr (n, belongsTo') \<Rightarrow>
          (let s1 = register_mimeType c (i_mimeType (n_internal n)) s
           in case index_insert (entry_of n belongsTo') (index s1) of
                Inl err \<Rightarrow>
                  Inr (None,
                       s1\<lparr>warnings := warnings s1 @
                            [(''Skipping duplicate path for '' @ n_path n, typeName c)]\<rparr>)
              | Inr idx \<Rightarrow>
                  (case collection_insert n (collection s1 (typeName c)) of
                     Inl e \<Rightarrow> Inl (e, s1\<lparr>index := idx\<rparr>)
                   | Inr ns \<Rightarrow>
                       Inr (Some n,
                            (set_collection (s1\<lparr>index := idx\<rparr>) (typeName c) ns)
                              \<lparr>events := events s1 @ [(typeName c, Some n, None)]\<rparr>))))"

section \<open>\<open>getNode\<close>, \<open>updateNode\<close>, \<open>removeNode\<close>\<close>

text \<open>\<open>findOne\<close>: the first document that matches, or \<open>null\<close>.\<close>

definition getNode :: "ctype \<Rightarrow> jsval \<Rightarrow> store \<Rightarrow> node option" where
  "getNode c id' s = find (\<lambda>n. n_id n = id') (collection s (typeName c))"

text \<open>
  The node and the index entry are objects of the store that \<open>updateNode\<close> mutates
  in place: \<open>update_first P f xs\<close> applies \<open>f\<close> to the first element that satisfies
  \<open>P\<close>, the one \<open>findOne\<close> returned.
\<close>

fun update_first :: "('a \<Rightarrow> bool) \<Rightarrow> ('a \<Rightarrow> 'a) \<Rightarrow> 'a list \<Rightarrow> 'a list" where
  "update_first P f [] = []"
| "update_first P f (x # xs) = (if P x then f x # xs else x # update_first P f xs)"

definition put_node :: "ctype \<Rightarrow> jsval \<Rightarrow> node \<Rightarrow> store \<Rightarrow> store" where
  "put_node c id' n s =
     set_collection s (typeName c)
       (update_first (\<lambda>m. n_id m = id') (\<lambda>_. n) (collection s (typeName c)))"

text \<open>
  \<open>updateNode\<close>. The statements that can throw are the reads of a missing node
  (\<open>node.uid\<close>) and of a missing index entry (\<open>indexEntry.path = ...\<close>), the
  transformer lookup, and \<open>slugify\<close>; what was assigned to the node before stays
  assigned. While the path is computed the node still has its old \<open>fields\<close>.
\<close>

definition updateNode :: "env \<Rightarrow> ctype \<Rightarrow> jsval \<Rightarrow> options \<Rightarrow> store \<Rightarrow> node outcome" where
  "updateNode E c id' options0 s =
     (case getNode c id' s of
        None \<Rightarrow> Inl (TypeError, s)
      | Some node0 \<Rightarrow>
          (let oldNode = node0;
               internal' = createInternals E (o_internal options0);
               node1 = node0\<lparr>n_internal := internal'\<rparr>
           in case transformed E options0 internal' of
                Inl e \<Rightarrow> Inl (e, put_node c id' node1 s)
              | Inr opts \<Rightarrow>
                  (let (fields', belongsTo') =
                         processNodeFields E c (o_fields opts) (i_origin (n_internal node1));
                       node2 = node1\<lparr>
                         n_title := js_or (o_title opts) (js_or (obj_get fields' ''title'') (n_title node1)),
                         n_date := js_or (o_date opts) (js_or (obj_get fields' ''date'') (n_date node1))\<rparr>
                   in case slugOf E opts fields' (n_title node2) of
                        Inl e \<Rightarrow> Inl (e, put_node c id' node2 s)
                      | Inr slug \<Rightarrow>
                          (let node3 = node2\<lparr>
                                 n_slug := slug,
                                 n_content := js_or (o_content opts)
                                   (js_or (obj_get fields' ''content'') (n_content node2)),
                                 n_excerpt := js_or (o_excerpt opts)
                                   (js_or (obj_get fields' ''excerpt'') (n_excerpt node2)),
                                 n_internal := internal'\<rparr>
                           in case pathOf E c opts node3 of
                                Inl e \<Rightarrow> Inl (e, put_node c id' node3 s)
                              | Inr p \<Rightarrow>
                                  (let node4 = node3\<lparr>n_path := p, n_fields := fields'\<rparr>;
                                       s1 = put_node c id' node4 s
                                   in if \<not> list_ex (\<lambda>e. e_uid e = n_uid node0) (index s)
                                      then Inl (TypeError, s1)
                                      else Inr (node4,
                                             s1\<lparr>index :=
                                                   update_first (\<lambda>e. e_uid e = n_uid node0)
                                                     (\<lambda>e. e\<lparr>e_path := n_path node4,
                                                             e_belongsTo := belongsTo'\<rparr>)
                                                     (index s),
                                                 events := events s @
                                                   [(typeName c, Some node4, Some oldNode)]\<rparr>))))))"

text \<open>\<open>removeNode\<close>: \<open>findAndRemove\<close> removes every document that matches.\<close>

definition removeNode :: "ctype \<Rightarrow> jsval \<Rightarrow> store \<Rightarrow> unit outcome" where
  "removeNode c id' s =
     (case find (\<lambda>n. n_id n = id') (collection s (typeName c)) of
        None \<Rightarrow> Inl (TypeError, s)
      | Some n \<Rightarrow>
          Inr ((),
               (set_collection (s\<lparr>index := filter (\<lambda>e. e_uid e \<noteq> n_uid n) (index s)\<rparr>)
                  (typeName c)
                  (filter (\<lambda>m. n_id m \<noteq> id') (collection s (typeName c))))
                 \<lparr>events := events s @ [(typeName c, None, Some n)]\<rparr>))"

section \<open>A sample environment\<close>

text \<open>
  Concrete collaborators, for running the operations on concrete inputs. They are
  small stand-ins that agree with the packages on the inputs used below:
  \<^item> \<open>camelCase_sample\<close> puts a word boundary before an upper-case letter that
    follows a lower-case one, drops leading separators, lower-cases the string and
    upper-cases the character after each run of the separators \<open>_ . -\<close> and space;
  \<^item> \<open>slugify_sample\<close> lower-cases a string, replaces each run of other characters
    than letters and digits by one \<open>-\<close>, and drops a \<open>-\<close> at either end; it rejects
    a value that is not a string;
  \<^item> the digest is a tagged copy of its input, \<open>JSON_stringify\<close> a fixed text;
  \<^item> a path is resolvable when it starts with \<open>./\<close> and is resolved below the origin;
  \<^item> one transformer, for \<open>text/markdown\<close>.
\<close>

definition toLower :: "char \<Rightarrow> char" where
  "toLower ch =
     (case map_of (zip ''ABCDEFGHIJKLMNOPQRSTUVWXYZ'' ''abcdefghijklmnopqrstuvwxyz'') ch of
        None \<Rightarrow> ch | Some l \<Rightarrow> l)"

definition toUpper :: "char \<Rightarrow> char" where
  "toUpper ch =
     (case map_of (zip ''abcdefghijklmnopqrstuvwxyz'' ''ABCDEFGHIJKLMNOPQRSTUVWXYZ'') ch of
        None \<Rightarrow> ch | Some u \<Rightarrow> u)"

definition isUpperCase :: "char \<Rightarrow> bool" where
  "isUpperCase ch = (ch \<in> set ''ABCDEFGHIJKLMNOPQRSTUVWXYZ'')"

definition isLowerCase :: "char \<Rightarrow> bool" where
  "isLowerCase ch = (ch \<in> set ''abcdefghijklmnopqrstuvwxyz'')"

definition isSeparator :: "char \<Rightarrow> bool" where
  "isSeparator ch = (ch \<in> set ''_.- '')"

fun preserveCamelCase :: "bool \<Rightarrow> string \<Rightarrow> string" where
  "preserveCamelCase lastLower [] = []"
| "preserveCamelCase lastLower (ch # cs) =
     (if lastLower \<and> isUpperCase ch then CHR ''-'' # ch # preserveCamelCase False cs
      else ch # preserveCamelCase (isLowerCase ch) cs)"

fun capitalizeWords :: "bool \<Rightarrow> string \<Rightarrow> string" where
  "capitalizeWords afterSep [] = []"
| "capitalizeWords afterSep (ch # cs) =
     (if isSeparator ch then capitalizeWords True cs
      else (if afterSep then toUpper ch else ch) # capitalizeWords False cs)"

definition camelCase_sample :: "string \<Rightarrow> string" where
  "camelCase_sample input =
     (if length input \<le> 1 then map toLower input
      else capitalizeWords False
             (map toLower (dropWhile isSeparator (preserveCamelCase False input))))"

definition pascalCase_sample :: "string \<Rightarrow> string" where
  "pascalCase_sample input =
     (case camelCase_sample input of [] \<Rightarrow> [] | ch # cs \<Rightarrow> toUpper ch # cs)"

fun dashes :: "bool \<Rightarrow> string \<Rightarrow> string" where
  "dashes pending [] = []"
| "dashes pending (ch # cs) =
     (if isLetter ch \<or> isDigit ch
      then (if pending then [CHR ''-'', toLower ch] else [toLower ch]) @ dashes False cs
      else dashes True cs)"

definition slugify_sample :: "jsval \<Rightarrow> error + string" where
  "slugify_sample v =
     (case v of
        JStr s \<Rightarrow> Inr (dashes False (dropWhile (\<lambda>ch. \<not> (isLetter ch \<or> isDigit ch)) s))
      | _ \<Rightarrow> Inl TypeError)"

definition markdown_sample :: "jsval \<Rightarrow> parse_result" where
  "markdown_sample content' =
     \<lparr>r_title = JStr ''From Markdown'', r_slug = JUndefined, r_path = JUndefined,
      r_date = JUndefined, r_content = content', r_excerpt = JUndefined,
      r_fields = Some [(''reading-time'', JNum 3)]\<rparr>"

definition sample_env :: env where
  "sample_env =
     \<lparr>camelCase = camelCase_sample,
      slugifyLib = slugify_sample,
      md5 = (\<lambda>s. ''md5:'' @ s),
      JSON_stringify = (\<lambda>opts. ''{}''),
      moment_format = (\<lambda>d f. case d of
                          JStr s \<Rightarrow> (if f = ''YYYY'' then take 4 s
                                     else if f = ''MM'' then take 2 (drop 5 s)
                                     else take 2 (drop 8 s))
                        | _ \<Rightarrow> ''Invalid date''),
      isResolvablePath = (\<lambda>p. take 2 p = ''./''),
      app_resolveFilePath = (\<lambda>origin' p abs. to_str origin' @ drop 1 p),
      transformers = (\<lambda>m. if m = ''text/markdown'' then Some markdown_sample else None),
      Date_now = 1546300800000,
      Date_toISOString = ''2019-01-01T00:00:00.000Z''\<rparr>"

definition sample_infer_env :: infer_env where
  "sample_infer_env =
     \<lparr>isDate = (\<lambda>v. case v of JStr s \<Rightarrow> length s = 10 \<and> s ! 4 = CHR ''-'' \<and> s ! 7 = CHR ''-'' | _ \<Rightarrow> False),
      pascalCase = pascalCase_sample\<rparr>"

text \<open>A content type \<open>Post\<close> with the route \<open>/:year/:slug\<close>, and the empty store.\<close>

definition Post :: ctype where
  "Post =
     \<lparr>typeName = ''Post'', refs = [], routeKeys = [''year'', ''slug''],
      makePathFn = (\<lambda>params. ''/'' @ to_str (obj_get params ''year'') @ ''/'' @
                               to_str (obj_get params ''slug'')),
      resolveAbsolutePaths = JBool False\<rparr>"

definition no_options :: options where
  "no_options =
     \<lparr>o_id = JUndefined, o_id_legacy = JUndefined, o_title = JUndefined, o_slug = JUndefined,
      o_path = JUndefined, o_date = JUndefined, o_content = JUndefined, o_excerpt = JUndefined,
      o_fields = None, o_internal = None\<rparr>"

definition empty_store :: store where
  "empty_store = \<lparr>index = [], collections = [], mimeTypes = [], warnings = [], events = []\<rparr>"

section \<open>Predicates and sample inputs of the properties\<close>

text \<open>\<open>options.fields || {}\<close>\<close>

definition fields_or_empty :: "obj option \<Rightarrow> obj" where
  "fields_or_empty f = (case f of None \<Rightarrow> [] | Some kvs \<Rightarrow> kvs)"

text \<open>A string has the substring \<open>//\<close>; a string starts with exactly one \<open>/\<close>.\<close>

fun containsDoubleSlash :: "string \<Rightarrow> bool" where
  "containsDoubleSlash (a # b # cs) = ((a = CHR ''/'' \<and> b = CHR ''/'') \<or> containsDoubleSlash (b # cs))"
| "containsDoubleSlash _ = False"

fun oneLeadingSlash :: "string \<Rightarrow> bool" where
  "oneLeadingSlash [] = False"
| "oneLeadingSlash [a] = (a = CHR ''/'')"
| "oneLeadingSlash (a # b # cs) = (a = CHR ''/'' \<and> b \<noteq> CHR ''/'')"

text \<open>The \<open>internal\<close> of a markdown file, and of a file whose mime type has no transformer.\<close>

definition md_internal :: internal where
  "md_internal =
     \<lparr>i_origin = JUndefined, i_mimeType = JStr ''text/markdown'', i_content = JStr ''# hi'',
      i_timestamp = 0\<rparr>"

definition yaml_internal :: internal_options where
  "yaml_internal =
     \<lparr>io_origin = JUndefined, io_mimeType = JStr ''text/yaml'', io_content = JStr ''a: 1''\<rparr>"

definition yaml_options :: options where
  "yaml_options = no_options\<lparr>o_id := JStr ''a'', o_internal := Some yaml_internal\<rparr>"

text \<open>Options with a mime type that has no transformer, and no content.\<close>

definition yaml_no_content :: options where
  "yaml_no_content =
     no_options\<lparr>o_id := JStr ''a'',
       o_internal := Some \<lparr>io_origin = JUndefined, io_mimeType = JStr ''text/yaml'',
                           io_content = JUndefined\<rparr>\<rparr>"

text \<open>A content type whose route function builds \<open>drafts//:slug\<close>.\<close>

definition Draft :: ctype where
  "Draft =
     \<lparr>typeName = ''Draft'', refs = [], routeKeys = [''slug''],
      makePathFn = (\<lambda>params. ''drafts//'' @ to_str (obj_get params ''slug'')),
      resolveAbsolutePaths = JBool False\<rparr>"

text \<open>Options with an explicit path, and the node \<open>createNode\<close> makes of them.\<close>

definition docs_options :: options where
  "docs_options = no_options\<lparr>o_id := JStr ''a'', o_path := JStr ''///docs/intro''\<rparr>"

definition docs_node :: node where
  "docs_node =
     \<lparr>n_id = JStr ''a'', n_typeName = ''Post'',
      n_internal = \<lparr>i_origin = JUndefined, i_mimeType = JUndefined, i_content = JUndefined,
                    i_timestamp = 1546300800000\<rparr>,
      n_id_legacy = JStr ''a'', n_uid = ''md5:Posta'', n_title = JStr ''a'',
      n_date = JStr ''2019-01-01T00:00:00.000Z'', n_slug = JStr ''a'',
      n_content = JStr [], n_excerpt = JStr [], n_withPath = True,
      n_fields = [], n_path = ''/docs/intro''\<rparr>"

text \<open>The node that \<open>createNode\<close> makes of the options \<open>{ id: 'a' }\<close> for \<open>Draft\<close>.\<close>

definition draft_node :: node where
  "draft_node =
     \<lparr>n_id = JStr ''a'', n_typeName = ''Draft'',
      n_internal = \<lparr>i_origin = JUndefined, i_mimeType = JUndefined, i_content = JUndefined,
                    i_timestamp = 1546300800000\<rparr>,
      n_id_legacy = JStr ''a'', n_uid = ''md5:Drafta'', n_title = JStr ''a'',
      n_date = JStr ''2019-01-01T00:00:00.000Z'', n_slug = JStr ''a'',
      n_content = JStr [], n_excerpt = JStr [], n_withPath = False,
      n_fields = [], n_path = ''drafts//a''\<rparr>"

text \<open>
  The identifier grammar \<open>^_?[a-zA-Z][a-zA-Z0-9]*$\<close>, and the grammar
  \<open>^([a-zA-Z][a-zA-Z0-9]*|_[0-9][a-zA-Z0-9]*|)$\<close>.
\<close>

definition isAlnum :: "char \<Rightarrow> bool" where
  "isAlnum ch = (isLetter ch \<or> isDigit ch)"

fun startsWithDigit :: "string \<Rightarrow> bool" where
  "startsWithDigit [] = False"
| "startsWithDigit (ch # cs) = isDigit ch"

fun matchesIdentifier :: "string \<Rightarrow> bool" where
  "matchesIdentifier [] = False"
| "matchesIdentifier (ch # cs) =
     (if ch = CHR ''_''
      then (case cs of [] \<Rightarrow> False | d # ds \<Rightarrow> isLetter d \<and> list_all isAlnum ds)
      else isLetter ch \<and> list_all isAlnum cs)"

fun matchesSanitized :: "string \<Rightarrow> bool" where
  "matchesSanitized [] = True"
| "matchesSanitized (ch # cs) =
     (if ch = CHR ''_''
      then (case cs of [] \<Rightarrow> False | d # ds \<Rightarrow> isDigit d \<and> list_all isAlnum ds)
      else isLetter ch \<and> list_all isAlnum cs)"

text \<open>An object with a key for internal use beside a field to be sanitised.\<close>

definition meta_fields :: obj where
  "meta_fields =
     [(''__meta'', JObj [(''my-key'', JStr ''./a.md'')]), (''my-key'', JNum 1)]"








text \<open>The keys of an object, in order.\<close>

fun keys_of :: "jsval \<Rightarrow> string list" where
  "keys_of (JObj kvs) = map fst kvs"
| "keys_of _ = []"




text \<open>
  The identity of a node (\<open>id\<close>, \<open>uid\<close>, \<open>typeName\<close>), and an index entry without its
  \<open>path\<close> and \<open>belongsTo\<close>.
\<close>

definition node_identity :: "node \<Rightarrow> jsval \<times> string \<times> string" where
  "node_identity n = (n_id n, n_uid n, n_typeName n)"

definition entry_frame :: "index_entry \<Rightarrow> index_entry" where
  "entry_frame e = e\<lparr>e_path := [], e_belongsTo := []\<rparr>"


text \<open>The store after \<open>Post.addNode({ id: 'a', path: '///docs/intro' })\<close>.\<close>

definition docs_store :: store where
  "docs_store =
     \<lparr>index = [entry_of docs_node []], collections = [(''Post'', [docs_node])], mimeTypes = [],
      warnings = [], events = [(''Post'', Some docs_node, None)]\<rparr>"

text \<open>
  Options that give a new title and a reference field, and the node that
  \<open>updateNode\<close> makes of \<open>docs_node\<close> with them.
\<close>

definition retitle_options :: options where
  "retitle_options =
     no_options\<lparr>o_title := JStr ''New title'',
       o_fields := Some [(''author'', JObj [(''typeName'', JStr ''Author''), (''id'', JNum 7)])]\<rparr>"

definition retitled_node :: node where
  "retitled_node =
     docs_node\<lparr>n_title := JStr ''New title'', n_slug := JStr ''new-title'',
       n_fields := [(''author'', JObj [(''typeName'', JStr ''Author''), (''id'', JNum 7)])],
       n_path := ''/2019/new-title''\<rparr>"

text \<open>The outcomes of \<open>updateNode\<close> on an existing node \<open>node0\<close>:
  it throws before it has assigned anything; or it throws after it has assigned
  to the node, which is then some \<open>nk\<close>; or it returns the node \<open>nk\<close>, having
  assigned \<open>path\<close> and \<open>belongsTo\<close> of the index entry and emitted the event.\<close>

definition update_outcome :: "ctype \<Rightarrow> jsval \<Rightarrow> node \<Rightarrow> store \<Rightarrow> node \<Rightarrow> node outcome \<Rightarrow> bool" where
  "update_outcome c id' node0 s nk r =
     (r = Inl (TypeError, s) \<or>
      (\<exists>e. r = Inl (e, put_node c id' nk s)) \<or>
      (\<exists>b. r = Inr (nk, (put_node c id' nk s)\<lparr>index :=
                update_first (\<lambda>e. e_uid e = n_uid node0)
                  (\<lambda>e. e\<lparr>e_path := n_path nk, e_belongsTo := b\<rparr>) (index s),
              events := events s @ [(typeName c, Some nk, Some node0)]\<rparr>)))"





definition same_c :: options where
  "same_c = no_options\<lparr>o_id := JStr ''c'', o_path := JStr ''/same''\<rparr>"














section \<open>Properties of type inference\<close>

lemma inferType_falsy: "\<not> truthy v \<Longrightarrow> inferType E v key nodeType = None"
  by (cases v) auto

text \<open>
  Claim C8. Type inference returns no type for a falsy value (\<open>0\<close>, the empty
  string, \<open>false\<close>, \<open>null\<close>, \<open>undefined\<close>). The type of a list is the list of the
  type inferred from its first element alone, and the empty list has no type. A
  field with such a value leaves the type map as it is; so a node with the fields
  \<open>count: 0\<close> and \<open>tags: []\<close> gives the empty type map.
\<close>

theorem inferType_falsy_and_lists:
  "(\<not> truthy v \<longrightarrow> inferType E v key nodeType = None)
   \<and> inferType E (JArr []) key nodeType = None
   \<and> inferType E (JArr (x # xs)) key nodeType =
       (case inferType E x key nodeType of
          None \<Rightarrow> None
        | Some t \<Rightarrow> Some (Field (GraphQLList (ftype t)) ArrayOrEmpty))
   \<and> ((\<not> truthy v \<or> v = JArr []) \<longrightarrow>
        inferNodeFields E ((key, v) # kvs) nodeType res = inferNodeFields E kvs nodeType res)
   \<and> inferTypes E [[(''count'', JNum 0), (''tags'', JArr [])]] nodeType = []"
  by (auto simp: inferType_falsy inferTypes_def)

theorem inferType_falsy_and_lists_witness:
  "\<not> truthy (JNum 0)
   \<and> inferType sample_infer_env (JNum 0) ''count'' ''Post'' = None
   \<and> inferType sample_infer_env (JArr [JNum 5, JStr ''a'']) ''count'' ''Post'' =
        Some (Field (GraphQLList GraphQLInt) ArrayOrEmpty)
   \<and> inferNodeFields sample_infer_env [(''count'', JNum 0), (''n'', JBool True)] ''Post'' [] =
        [(''n'', Field GraphQLBoolean DefaultResolve)]"
  using inferType_falsy_and_lists
    [of "JNum 0" sample_infer_env "''count''" "''Post''" "JNum 5" "[JStr ''a'']"
        "[(''n'', JBool True)]" "[]"]
  by (simp add: sample_infer_env_def is32BitInt_def toInt32_def)

text \<open>
  Claim C7. The type map of \<open>inferTypes\<close> is meant to have no key that begins with
  \<open>__\<close>. \<open>inferTypes\<close> has no test of the key: normalisation keeps the field
  \<open>__meta: 'x'\<close> as it is, and inference over a node with that field returns a type
  map with the key \<open>__meta\<close>.
\<close>

theorem inferTypes_internal_key:
  "processNodeFields sample_env Post (Some [(''__meta'', JStr ''x'')]) JUndefined =
     ([(''__meta'', JStr ''x'')], [])
   \<and> inferTypes sample_infer_env [[(''__meta'', JStr ''x'')]] ''Post'' =
     [(''__meta'', Field GraphQLString DefaultResolve)]"
  by (simp add: processNodeFields_def obj_set_def Post_def inferTypes_def sample_infer_env_def)

section \<open>Properties of \<open>createNode\<close>\<close>

text \<open>
  \<open>createNode\<close> reads the transformer registry in the transformer step only: the
  other steps give the same result for every registry.
\<close>

lemma createKey_transformers: "createKey (E\<lparr>transformers := T\<rparr>) k = createKey E k"
  by (simp add: createKey_def)

lemma resolveFilePath_transformers:
  "resolveFilePath (E\<lparr>transformers := T\<rparr>) c o' p = resolveFilePath E c o' p"
  by (simp add: resolveFilePath_def)

lemma processField_transformers:
  "processField (E\<lparr>transformers := T\<rparr>) c origin' v bt = processField E c origin' v bt"
  "processValue (E\<lparr>transformers := T\<rparr>) c origin' v bt = processValue E c origin' v bt"
  "processFields (E\<lparr>transformers := T\<rparr>) c origin' kvs res bt = processFields E c origin' kvs res bt"
  "processIndexed (E\<lparr>transformers := T\<rparr>) c origin' i xs res bt = processIndexed E c origin' i xs res bt"
  "processElems (E\<lparr>transformers := T\<rparr>) c origin' xs bt = processElems E c origin' xs bt"
proof (induction E c origin' v bt and E c origin' v bt and E c origin' kvs res bt
         and E c origin' i xs res bt and E c origin' xs bt
       rule: processField_processValue_processFields_processIndexed_processElems.induct)
qed (simp_all add: Let_def createKey_transformers resolveFilePath_transformers split: prod.splits)

lemma processNodeFields_transformers:
  "processNodeFields (E\<lparr>transformers := T\<rparr>) c input origin' = processNodeFields E c input origin'"
  by (simp add: processNodeFields_def processField_transformers)

lemma slugOf_transformers: "slugOf (E\<lparr>transformers := T\<rparr>) opts fs title = slugOf E opts fs title"
  by (simp add: slugOf_def slugify_def)

lemma makeParams_transformers:
  "makeParams (E\<lparr>transformers := T\<rparr>) n ks params = makeParams E n ks params"
  by (induction ks arbitrary: params) (simp_all add: Let_def slugify_def split: sum.splits)

lemma pathOf_transformers: "pathOf (E\<lparr>transformers := T\<rparr>) c opts n = pathOf E c opts n"
  by (cases "o_path opts") (simp_all add: pathOf_def makePath_def makeParams_transformers)

lemma transformed_untouched:
  "\<not> (truthy (i_content internal') \<and> truthy (i_mimeType internal')) \<Longrightarrow>
     transformed E opts internal' = Inr opts"
  by (auto simp: transformed_def)

lemma createNode_transformers:
  assumes "\<not> (truthy (i_content (createInternals E (o_internal opts))) \<and>
               truthy (i_mimeType (createInternals E (o_internal opts))))"
  shows "createNode (E\<lparr>transformers := T\<rparr>) c opts = createNode E c opts"
proof -
  have ci: "createInternals (E\<lparr>transformers := T\<rparr>) (o_internal opts) = createInternals E (o_internal opts)"
    by (cases "o_internal opts") (simp_all add: createInternals_def)
  have t1: "transformed (E\<lparr>transformers := T\<rparr>) opts (createInternals E (o_internal opts)) = Inr opts"
    using assms by (rule transformed_untouched)
  have t2: "transformed E opts (createInternals E (o_internal opts)) = Inr opts"
    using assms by (rule transformed_untouched)
  show ?thesis
    by (simp add: createNode_def ci t1 t2 processNodeFields_transformers slugOf_transformers
          pathOf_transformers makeUid_def Let_def split: prod.splits sum.splits)
qed

text \<open>
  Claim C9, as the code has it. When \<open>internal.content\<close> and \<open>internal.mimeType\<close>
  are both truthy and no transformer is registered for the mime type,
  \<open>createNode\<close> throws the error of \<open>transform\<close>, and so does \<open>addNode\<close>, leaving
  the store as it was. When \<open>internal.content\<close> or \<open>internal.mimeType\<close> is missing
  or falsy, the transformer is not looked up: the options pass the transformer
  step as they are, and \<open>createNode\<close> returns what it returns with any other
  registry \<open>T\<close>, so that a mime type without a transformer is no error there.
\<close>

theorem createNode_missing_transformer:
  "(o_internal opts = Some io \<and> truthy (io_content io) \<and> truthy (io_mimeType io) \<and>
      transformers E (to_str (io_mimeType io)) = None \<longrightarrow>
        createNode E c opts = Inl (NoTransformer (to_str (io_mimeType io))) \<and>
        addNode E c opts s = Inl (NoTransformer (to_str (io_mimeType io)), s))
   \<and> (\<not> (truthy (i_content (createInternals E (o_internal opts))) \<and>
           truthy (i_mimeType (createInternals E (o_internal opts)))) \<longrightarrow>
        transformed E opts (createInternals E (o_internal opts)) = Inr opts \<and>
        createNode (E\<lparr>transformers := T\<rparr>) c opts = createNode E c opts)"
proof -
  have "createNode E c opts = Inl (NoTransformer (to_str (io_mimeType io))) \<and>
        addNode E c opts s = Inl (NoTransformer (to_str (io_mimeType io)), s)"
    if "o_internal opts = Some io" "truthy (io_content io)" "truthy (io_mimeType io)"
      "transformers E (to_str (io_mimeType io)) = None"
    using that
    by (simp add: createNode_def addNode_def transformed_def transformNodeOptions_def
          transform_def createInternals_def Let_def)
  then show ?thesis
    using createNode_transformers [of E opts T c] transformed_untouched [of "createInternals E (o_internal opts)" E opts]
    by blast
qed

theorem createNode_missing_transformer_witness:
  "o_internal yaml_options = Some yaml_internal
   \<and> truthy (io_content yaml_internal) \<and> truthy (io_mimeType yaml_internal)
   \<and> transformers sample_env ''text/yaml'' = None
   \<and> createNode sample_env Post yaml_options = Inl (NoTransformer ''text/yaml'')
   \<and> addNode sample_env Post yaml_options empty_store = Inl (NoTransformer ''text/yaml'', empty_store)
   \<and> \<not> truthy (i_content (createInternals sample_env (o_internal yaml_no_content)))
   \<and> transformed sample_env yaml_no_content (createInternals sample_env (o_internal yaml_no_content))
       = Inr yaml_no_content
   \<and> createNode (sample_env\<lparr>transformers := (\<lambda>m. Some markdown_sample)\<rparr>) Post yaml_no_content
       = createNode sample_env Post yaml_no_content"
proof -
  have h1: "o_internal yaml_options = Some yaml_internal"
    by (simp add: yaml_options_def)
  have h2: "truthy (io_content yaml_internal)" and h3: "truthy (io_mimeType yaml_internal)"
    by (simp_all add: yaml_internal_def)
  have h4: "transformers sample_env (to_str (io_mimeType yaml_internal)) = None"
    by (simp add: yaml_internal_def sample_env_def)
  have h5: "\<not> truthy (i_content (createInternals sample_env (o_internal yaml_no_content)))"
    by (simp add: yaml_no_content_def createInternals_def)
  from createNode_missing_transformer
         [where opts = yaml_options and io = yaml_internal and E = sample_env and c = Post
            and s = empty_store]
       h1 h2 h3 h4
  have a: "createNode sample_env Post yaml_options = Inl (NoTransformer (to_str (io_mimeType yaml_internal)))
     \<and> addNode sample_env Post yaml_options empty_store =
         Inl (NoTransformer (to_str (io_mimeType yaml_internal)), empty_store)"
    by blast
  from createNode_missing_transformer
         [where opts = yaml_no_content and E = sample_env and c = Post
            and T = "\<lambda>m. Some markdown_sample"]
       h5
  have b: "transformed sample_env yaml_no_content (createInternals sample_env (o_internal yaml_no_content))
       = Inr yaml_no_content
     \<and> createNode (sample_env\<lparr>transformers := (\<lambda>m. Some markdown_sample)\<rparr>) Post yaml_no_content
       = createNode sample_env Post yaml_no_content"
    by blast
  from a b h1 h2 h3 h4 h5 show ?thesis
    by (simp add: yaml_internal_def)
qed

text \<open>
  The claim as it is written fails: with a mime type that has no transformer and no
  content, the transformer is not looked up and \<open>createNode\<close> returns a node.
\<close>

theorem createNode_mimeType_without_content:
  "transformers sample_env ''text/yaml'' = None
   \<and> createNode sample_env Post yaml_no_content =
     Inr (\<lparr>n_id = JStr ''a'', n_typeName = ''Post'',
           n_internal = \<lparr>i_origin = JUndefined, i_mimeType = JStr ''text/yaml'',
                          i_content = JUndefined, i_timestamp = 1546300800000\<rparr>,
           n_id_legacy = JStr ''a'', n_uid = ''md5:Posta'', n_title = JStr ''a'',
           n_date = JStr ''2019-01-01T00:00:00.000Z'', n_slug = JStr ''a'',
           n_content = JStr [], n_excerpt = JStr [], n_withPath = False,
           n_fields = [], n_path = ''/2019/a''\<rparr>,
          [])"
  by code_simp

lemma map_of_object_assign:
  "map_of (object_assign target source) = map_of target ++ map_of (rev source)"
  unfolding object_assign_def
proof (induction source arbitrary: target)
  case Nil
  then show ?case by simp
next
  case (Cons kv source)
  obtain k v where kv: "kv = (k, v)" by (cases kv)
  have "map_of (foldl (\<lambda>t (k, v). obj_set t k v) (obj_set target k v) source) =
        map_of (obj_set target k v) ++ map_of (rev source)"
    using Cons.IH by simp
  then show ?case
    by (simp add: kv obj_set_def update_conv' map_add_def fun_eq_iff split: option.splits)
qed

lemma obj_get_object_assign:
  assumes "distinct (map fst source)"
  shows "obj_get (object_assign target source) k =
         (if hasOwnProperty source k then obj_get source k else obj_get target k)"
proof -
  have "distinct (map fst (rev source))"
    using assms by (metis distinct_rev rev_map)
  then have "map_of (rev source) = map_of source"
    using assms by (simp add: map_of_inject_set)
  then have eq: "map_of (object_assign target source) k =
      (case map_of source k of None \<Rightarrow> map_of target k | Some v \<Rightarrow> Some v)"
    by (simp add: map_of_object_assign map_add_def)
  show ?thesis
  proof (cases "map_of source k")
    case None
    then have "k \<notin> set (map fst source)"
      by (simp add: map_of_eq_None_iff)
    with None eq show ?thesis
      by (simp add: obj_get_def hasOwnProperty_def)
  next
    case (Some v)
    then have "k \<in> set (map fst source)"
      by (metis map_of_eq_None_iff option.distinct(1) set_map)
    with Some eq show ?thesis
      by (simp add: obj_get_def hasOwnProperty_def)
  qed
qed

text \<open>
  Claim C2, as the code has it. When \<open>internal.content\<close> and \<open>internal.mimeType\<close>
  are both truthy and a transformer is registered, each of \<open>title\<close>, \<open>slug\<close>,
  \<open>path\<close>, \<open>date\<close>, \<open>content\<close> and \<open>excerpt\<close> of the options takes the value of the
  parse result when that value is truthy, and keeps the caller's value otherwise.
  When the result has \<open>fields\<close> (an object, with distinct keys), they are assigned
  over the caller's fields: a key of the result takes the result's value, every
  other key keeps the caller's. \<open>id\<close>, \<open>_id\<close> and \<open>internal\<close> are not touched.
\<close>

theorem transformed_overrides:
  assumes "truthy (i_content internal')" and "truthy (i_mimeType internal')"
    and "transformers E (to_str (i_mimeType internal')) = Some parse"
    and "result = parse (i_content internal')"
    and "distinct (map fst (fields_or_empty (r_fields result)))"
  shows "\<exists>opts'. transformed E opts internal' = Inr opts'
     \<and> o_title opts' = (if truthy (r_title result) then r_title result else o_title opts)
     \<and> o_slug opts' = (if truthy (r_slug result) then r_slug result else o_slug opts)
     \<and> o_path opts' = (if truthy (r_path result) then r_path result else o_path opts)
     \<and> o_date opts' = (if truthy (r_date result) then r_date result else o_date opts)
     \<and> o_content opts' = (if truthy (r_content result) then r_content result else o_content opts)
     \<and> o_excerpt opts' = (if truthy (r_excerpt result) then r_excerpt result else o_excerpt opts)
     \<and> (case r_fields result of
           None \<Rightarrow> o_fields opts' = o_fields opts
         | Some rf \<Rightarrow>
             (\<exists>fs. o_fields opts' = Some fs \<and>
               (\<forall>k. obj_get fs k =
                 (if hasOwnProperty rf k then obj_get rf k
                  else obj_get (fields_or_empty (o_fields opts)) k))))
     \<and> o_id opts' = o_id opts \<and> o_id_legacy opts' = o_id_legacy opts
     \<and> o_internal opts' = o_internal opts"
  using assms
  by (auto simp: transformed_def transformNodeOptions_def transform_def fields_or_empty_def
        obj_get_object_assign split: option.splits)

theorem transformed_overrides_witness:
  "truthy (i_content md_internal) \<and> truthy (i_mimeType md_internal)
   \<and> transformers sample_env ''text/markdown'' = Some markdown_sample
   \<and> (\<exists>opts'. transformed sample_env (no_options\<lparr>o_title := JStr ''Mine'', o_slug := JStr ''mine''\<rparr>)
          md_internal = Inr opts'
        \<and> o_title opts' = JStr ''From Markdown'' \<and> o_slug opts' = JStr ''mine'')"
proof -
  have h1: "truthy (i_content md_internal)" and h2: "truthy (i_mimeType md_internal)"
    by (simp_all add: md_internal_def)
  have h3: "transformers sample_env (to_str (i_mimeType md_internal)) = Some markdown_sample"
    by (simp add: md_internal_def sample_env_def)
  have h4: "distinct (map fst (fields_or_empty (r_fields (markdown_sample (i_content md_internal)))))"
    by (simp add: markdown_sample_def fields_or_empty_def)
  from transformed_overrides [OF h1 h2 h3 refl h4,
      of "no_options\<lparr>o_title := JStr ''Mine'', o_slug := JStr ''mine''\<rparr>"]
  obtain opts' where
    "transformed sample_env (no_options\<lparr>o_title := JStr ''Mine'', o_slug := JStr ''mine''\<rparr>)
       md_internal = Inr opts'"
    "o_title opts' = JStr ''From Markdown''" "o_slug opts' = JStr ''mine''"
    by (auto simp: markdown_sample_def)
  with h1 h2 h3 show ?thesis
    by (auto simp: md_internal_def)
qed

text \<open>
  The claim as it is written fails: the caller gives the title \<open>Mine\<close> and the
  field \<open>reading-time: 10\<close>; the node has the transformer's title and field value.
\<close>

theorem transformer_overrides_title:
  "createNode sample_env Post
     (no_options\<lparr>o_id := JStr ''a'', o_title := JStr ''Mine'',
        o_fields := Some [(''reading-time'', JNum 10)],
        o_internal := Some \<lparr>io_origin = JUndefined, io_mimeType = JStr ''text/markdown'',
                            io_content = JStr ''# hi''\<rparr>\<rparr>) =
   Inr (\<lparr>n_id = JStr ''a'', n_typeName = ''Post'',
         n_internal = \<lparr>i_origin = JUndefined, i_mimeType = JStr ''text/markdown'',
                        i_content = JStr ''# hi'', i_timestamp = 1546300800000\<rparr>,
         n_id_legacy = JStr ''a'', n_uid = ''md5:Posta'', n_title = JStr ''From Markdown'',
         n_date = JStr ''2019-01-01T00:00:00.000Z'', n_slug = JStr ''from-markdown'',
         n_content = JStr ''# hi'', n_excerpt = JStr [], n_withPath = False,
         n_fields = [(''readingTime'', JNum 3)], n_path = ''/2019/from-markdown''\<rparr>,
        [])"
  by code_simp

lemma dropWhile_slash_cases:
  obtains "dropWhile (\<lambda>ch. ch = CHR ''/'') p = []"
  | b cs where "dropWhile (\<lambda>ch. ch = CHR ''/'') p = b # cs" and "b \<noteq> CHR ''/''"
proof (cases "dropWhile (\<lambda>ch. ch = CHR ''/'') p")
  case Nil
  then show ?thesis using that by blast
next
  case (Cons b cs)
  then have "b \<noteq> CHR ''/''"
    using hd_dropWhile [of "\<lambda>ch. ch = CHR ''/''" p] by auto
  with Cons show ?thesis using that by blast
qed

lemma oneLeadingSlash_normalizePath: "oneLeadingSlash (normalizePath p)"
  unfolding normalizePath_def
  by (rule dropWhile_slash_cases [of p]) (simp_all only: oneLeadingSlash.simps simp_thms)

lemma containsDoubleSlash_normalizePath:
  "containsDoubleSlash (normalizePath p) =
     containsDoubleSlash (dropWhile (\<lambda>ch. ch = CHR ''/'') p)"
  unfolding normalizePath_def
  by (rule dropWhile_slash_cases [of p]) (simp_all only: containsDoubleSlash.simps simp_thms)

text \<open>
  Claim C6, as the code has it. When the path of the options (after the transformer
  step) is a string, the path of the node is \<open>/\<close> followed by that string without
  its leading slashes: it starts with exactly one \<open>/\<close>, and it contains \<open>//\<close>
  exactly when the supplied path contains it after its leading slashes. When that
  path is not a string, the path of the node is what the route function
  \<open>options.makePath\<close> of the content type returns for the parameters that \<open>makePath\<close>
  computes from the node.
\<close>

theorem createNode_path:
  assumes "createNode E c opts = Inr (n, bt)"
    and "transformed E opts (createInternals E (o_internal opts)) = Inr opts'"
  shows "(\<forall>p. o_path opts' = JStr p \<longrightarrow>
            n_path n = normalizePath p \<and> oneLeadingSlash (n_path n) \<and> n_withPath n \<and>
            containsDoubleSlash (n_path n) =
              containsDoubleSlash (dropWhile (\<lambda>ch. ch = CHR ''/'') p))
       \<and> ((\<forall>p. o_path opts' \<noteq> JStr p) \<longrightarrow>
            \<not> n_withPath n \<and>
            (\<exists>params. makeParams E (n\<lparr>n_path := []\<rparr>) (routeKeys c) [] = Inr params \<and>
                      n_path n = makePathFn c params))"
proof -
  have A: "n_path n = normalizePath p \<and> oneLeadingSlash (n_path n) \<and> n_withPath n \<and>
            containsDoubleSlash (n_path n) =
              containsDoubleSlash (dropWhile (\<lambda>ch. ch = CHR ''/'') p)"
    if p: "o_path opts' = JStr p" for p
  proof -
    have "n_path n = normalizePath p \<and> n_withPath n"
      using assms p
      by (auto simp: createNode_def Let_def pathOf_def split: sum.splits prod.splits)
    then show ?thesis
      by (simp add: oneLeadingSlash_normalizePath containsDoubleSlash_normalizePath)
  qed
  have B: "\<not> n_withPath n \<and>
            (\<exists>params. makeParams E (n\<lparr>n_path := []\<rparr>) (routeKeys c) [] = Inr params \<and>
                      n_path n = makePathFn c params)"
    if np: "\<forall>p. o_path opts' \<noteq> JStr p"
  proof -
    from np have po: "pathOf E c opts' m = makePath E c m" for m
      by (cases "o_path opts'") (simp_all add: pathOf_def)
    from np have wp: "(case o_path opts' of JStr x \<Rightarrow> True | _ \<Rightarrow> False) = False"
      by (cases "o_path opts'") simp_all
    from assms show ?thesis
      by (auto simp: createNode_def Let_def wp po makePath_def split: sum.splits prod.splits)
  qed
  from A B show ?thesis by blast
qed

theorem createNode_path_witness:
  "createNode sample_env Post docs_options = Inr (docs_node, [])
   \<and> o_path docs_options = JStr ''///docs/intro''
   \<and> n_path docs_node = ''/docs/intro'' \<and> oneLeadingSlash (n_path docs_node)
   \<and> \<not> containsDoubleSlash (n_path docs_node)
   \<and> createNode sample_env Draft (no_options\<lparr>o_id := JStr ''a''\<rparr>) = Inr (draft_node, [])
   \<and> o_path (no_options\<lparr>o_id := JStr ''a''\<rparr>) = JUndefined
   \<and> makeParams sample_env (draft_node\<lparr>n_path := []\<rparr>) (routeKeys Draft) [] =
        Inr [(''slug'', JStr ''a''), (''slug_raw'', JStr ''a'')]
   \<and> n_path draft_node = makePathFn Draft [(''slug'', JStr ''a''), (''slug_raw'', JStr ''a'')]"
proof -
  have h1: "createNode sample_env Post docs_options = Inr (docs_node, [])"
    by code_simp
  have h2: "transformed sample_env docs_options (createInternals sample_env (o_internal docs_options))
      = Inr docs_options"
    by (simp add: transformed_def createInternals_def docs_options_def no_options_def)
  have h3: "o_path docs_options = JStr ''///docs/intro''"
    by (simp add: docs_options_def)
  from createNode_path [OF h1 h2] h3
  have a: "n_path docs_node = normalizePath ''///docs/intro'' \<and> oneLeadingSlash (n_path docs_node) \<and>
      containsDoubleSlash (n_path docs_node) =
        containsDoubleSlash (dropWhile (\<lambda>ch. ch = CHR ''/'') ''///docs/intro'')"
    by blast
  have g1: "createNode sample_env Draft (no_options\<lparr>o_id := JStr ''a''\<rparr>) = Inr (draft_node, [])"
    by code_simp
  have g2: "transformed sample_env (no_options\<lparr>o_id := JStr ''a''\<rparr>)
      (createInternals sample_env (o_internal (no_options\<lparr>o_id := JStr ''a''\<rparr>)))
      = Inr (no_options\<lparr>o_id := JStr ''a''\<rparr>)"
    by (simp add: transformed_def createInternals_def no_options_def)
  have g3: "o_path (no_options\<lparr>o_id := JStr ''a''\<rparr>) = JUndefined"
    by (simp add: no_options_def)
  have g4: "makeParams sample_env (draft_node\<lparr>n_path := []\<rparr>) (routeKeys Draft) [] =
        Inr [(''slug'', JStr ''a''), (''slug_raw'', JStr ''a'')]"
    by code_simp
  from createNode_path [OF g1 g2] g3
  have "\<exists>params. makeParams sample_env (draft_node\<lparr>n_path := []\<rparr>) (routeKeys Draft) [] = Inr params \<and>
                      n_path draft_node = makePathFn Draft params"
    by simp
  with g4 have b: "n_path draft_node = makePathFn Draft [(''slug'', JStr ''a''), (''slug_raw'', JStr ''a'')]"
    by simp
  from a b h1 h3 g1 g3 g4 show ?thesis
    by (simp add: normalizePath_def)
qed

text \<open>
  The claim as it is written fails in both branches: a \<open>//\<close> inside the supplied path
  stays in the path of the node, and the path that the route function of the
  content type \<open>Draft\<close> returns has no leading \<open>/\<close> and has a \<open>//\<close>.
\<close>

theorem createNode_path_double_slash:
  "createNode sample_env Post (no_options\<lparr>o_id := JStr ''a'', o_path := JStr ''docs//intro''\<rparr>) =
     Inr (docs_node\<lparr>n_path := ''/docs//intro''\<rparr>, [])
   \<and> containsDoubleSlash ''/docs//intro''
   \<and> createNode sample_env Draft (no_options\<lparr>o_id := JStr ''a''\<rparr>) = Inr (draft_node, [])
   \<and> n_path draft_node = ''drafts//a''
   \<and> \<not> oneLeadingSlash ''drafts//a'' \<and> containsDoubleSlash ''drafts//a''"
  by code_simp

section \<open>Properties of field normalisation\<close>

lemma validKeyChar_replace: "list_all validKeyChar (replaceNonValidChars key)"
  by (induction key) (simp_all add: replaceNonValidChars_def validKeyChar_def)

lemma not_digit_underscore: "\<not> isDigit CHR ''_''"
  by (simp add: isDigit_def)

lemma prefixLeadingNumber_no_digit: "\<not> startsWithDigit (prefixLeadingNumber s)"
  by (cases s) (simp_all add: prefixLeadingNumber_def not_digit_underscore)

lemma digit_not_letter: "isDigit ch \<Longrightarrow> \<not> isLetter ch"
  by (auto simp: isDigit_def isLetter_def)

lemma prefixLeadingNumber_matches:
  assumes "list_all isAlnum s"
  shows "matchesSanitized (prefixLeadingNumber s)"
proof (cases s)
  case Nil
  then show ?thesis by (simp add: prefixLeadingNumber_def)
next
  case (Cons ch cs)
  with assms have "isAlnum ch" and "list_all isAlnum cs" by simp_all
  then show ?thesis
    using Cons by (auto simp: prefixLeadingNumber_def isAlnum_def not_digit_underscore isDigit_def isLetter_def)
qed

lemma prefixed_not_identifier:
  "startsWithDigit s \<Longrightarrow> \<not> matchesIdentifier (prefixLeadingNumber s)"
  by (cases s) (auto simp: prefixLeadingNumber_def digit_not_letter)

lemma processFields_internal_key:
  assumes "isInternalKey key"
    and "\<forall>k' \<in> set (map fst kvs). \<not> isInternalKey k' \<longrightarrow> createKey E k' \<noteq> key"
  shows "map_of (fst (processFields E c origin' kvs res bt)) key =
         (case map_of (rev kvs) key of None \<Rightarrow> map_of res key | Some v \<Rightarrow> Some v)"
  using assms(2)
proof (induction kvs arbitrary: res bt)
  case Nil
  then show ?case by simp
next
  case (Cons kv kvs)
  obtain k' v' where kv: "kv = (k', v')" by (cases kv)
  show ?case
  proof (cases "isInternalKey k'")
    case True
    then show ?thesis
      using Cons kv
      by (auto simp: obj_set_def update_conv' map_add_def split: option.splits)
  next
    case False
    with Cons.prems kv have ne: "createKey E k' \<noteq> key" by simp
    from False assms(1) have ne2: "k' \<noteq> key" by auto
    show ?thesis
      using Cons False kv ne ne2
      by (auto simp: obj_set_def update_conv' map_add_def Let_def split: option.splits jsval.splits prod.splits)
  qed
qed


lemma matchesSanitized_not_internal: "matchesSanitized s \<Longrightarrow> \<not> isInternalKey s"
proof (cases s)
  case Nil
  then show ?thesis by simp
next
  case (Cons a cs)
  assume m: "matchesSanitized s"
  show ?thesis
  proof (cases cs)
    case Nil
    with Cons show ?thesis by simp
  next
    case (Cons b ds)
    with m \<open>s = a # cs\<close> have "a = CHR ''_'' \<longrightarrow> isDigit b"
      by (auto split: if_splits)
    then have "\<not> (a = CHR ''_'' \<and> b = CHR ''_'')"
      using not_digit_underscore by auto
    with Cons \<open>s = a # cs\<close> show ?thesis by simp
  qed
qed

lemma keys_obj_set: "fst ` set (obj_set res k v) = insert k (fst ` set res)"
proof -
  have "set (map fst (obj_set res k v)) = insert k (set (map fst res))"
    by (auto simp: obj_set_def update_keys)
  then show ?thesis by simp
qed

lemma processFields_keys:
  "set (map fst (fst (processFields E c origin' kvs res bt))) =
     set (map fst res) \<union> (\<lambda>k. if isInternalKey k then k else createKey E k) ` set (map fst kvs)"
proof (induction kvs arbitrary: res bt)
  case Nil
  then show ?case by simp
next
  case (Cons kv kvs)
  obtain k v where kv: "kv = (k, v)" by (cases kv)
  obtain w bt1 where pv: "processValue E c origin' v bt = (w, bt1)"
    by (cases "processValue E c origin' v bt")
  show ?case
  proof (cases "isInternalKey k")
    case True
    then show ?thesis
      using Cons.IH [of "obj_set res k v" bt] by (simp add: kv keys_obj_set)
  next
    case False
    then show ?thesis
      using Cons.IH [of "obj_set res (createKey E k) w" bt1] by (simp add: kv pv keys_obj_set)
  qed
qed

lemma prefixLeadingNumber_eq:
  "prefixLeadingNumber k = (if startsWithDigit k then CHR ''_'' # k else k)"
  by (cases k) (simp_all add: prefixLeadingNumber_def)

lemma prefixLeadingNumber_identifier:
  assumes "list_all isAlnum s" and "s \<noteq> []" and "\<not> startsWithDigit s"
  shows "matchesIdentifier (prefixLeadingNumber s)"
proof (cases s)
  case Nil
  with assms show ?thesis by simp
next
  case (Cons ch cs)
  with assms have "isAlnum ch" and "list_all isAlnum cs" and "\<not> isDigit ch" by simp_all
  then have "isLetter ch" by (simp add: isAlnum_def)
  then have "ch \<noteq> CHR ''_''" by (auto simp: isLetter_def)
  with Cons \<open>isLetter ch\<close> \<open>list_all isAlnum cs\<close> \<open>\<not> isDigit ch\<close> show ?thesis
    by (simp add: prefixLeadingNumber_def)
qed

text \<open>
  Claim C4, as the code has it. Normalisation stores every field under its
  sanitised key: the keys of the normalised fields, and of every normalised
  object, are the keys that start with \<open>__\<close>, as they are, and \<open>createKey key\<close> for
  every other key. \<open>createKey\<close> replaces every character outside \<open>[a-zA-Z0-9_]\<close>
  by \<open>_\<close>, camel-cases the key and puts \<open>_\<close> before a leading digit. The
  sanitised key never begins with a digit. When the camel-cased key consists of
  letters and digits, the sanitised key matches \<open>^_?[a-zA-Z][a-zA-Z0-9]*$\<close> if the
  camel-cased key is not empty and begins with a letter, and is empty or matches
  \<open>^_[0-9][a-zA-Z0-9]*$\<close> otherwise; when the camel-cased key is empty or begins
  with a digit, the sanitised key does not match \<open>^_?[a-zA-Z][a-zA-Z0-9]*$\<close>. A key
  that starts with \<open>__\<close> keeps, in the normalised fields of an object (distinct
  keys), the value it had, unless another key of the object is sanitised to that
  very key.
\<close>

theorem key_sanitation:
  "set (map fst (fst (processNodeFields E c (Some kvs) origin'))) =
     (\<lambda>k. if isInternalKey k then k else createKey E k) ` set (map fst kvs)
   \<and> set (keys_of (fst (processField E c origin' (JObj kvs) bt))) =
     (\<lambda>k. if isInternalKey k then k else createKey E k) ` set (map fst kvs)
   \<and> list_all validKeyChar (replaceNonValidChars key)
   \<and> createKey E key =
       (let k = camelCase E (replaceNonValidChars key)
        in if startsWithDigit k then CHR ''_'' # k else k)
   \<and> \<not> startsWithDigit (createKey E key)
   \<and> (list_all isAlnum (camelCase E (replaceNonValidChars key)) \<and>
        camelCase E (replaceNonValidChars key) \<noteq> [] \<and>
        \<not> startsWithDigit (camelCase E (replaceNonValidChars key)) \<longrightarrow>
          matchesIdentifier (createKey E key))
   \<and> (list_all isAlnum (camelCase E (replaceNonValidChars key)) \<longrightarrow>
        matchesSanitized (createKey E key))
   \<and> (startsWithDigit (camelCase E (replaceNonValidChars key)) \<or>
        camelCase E (replaceNonValidChars key) = [] \<longrightarrow>
          \<not> matchesIdentifier (createKey E key))
   \<and> (isInternalKey key \<and> (key, v) \<in> set kvs \<and> distinct (map fst kvs) \<and>
        (\<forall>k' \<in> set (map fst kvs). \<not> isInternalKey k' \<longrightarrow> createKey E k' \<noteq> key) \<longrightarrow>
        obj_get (fst (processNodeFields E c (Some kvs) origin')) key = v)"
proof -
  have keys1: "set (map fst (fst (processNodeFields E c (Some kvs) origin'))) =
     (\<lambda>k. if isInternalKey k then k else createKey E k) ` set (map fst kvs)"
    using processFields_keys [of E c _ kvs "[]" "[]"]
    by (simp add: processNodeFields_def Let_def split_beta)
  have keys2: "set (keys_of (fst (processField E c origin' (JObj kvs) bt))) =
     (\<lambda>k. if isInternalKey k then k else createKey E k) ` set (map fst kvs)"
    using processFields_keys [of E c origin' kvs "[]"]
    by (simp add: Let_def split_beta)
  have last: "obj_get (fst (processNodeFields E c (Some kvs) origin')) key = v"
    if int: "isInternalKey key" and mem: "(key, v) \<in> set kvs" and dist: "distinct (map fst kvs)"
      and ne: "\<forall>k' \<in> set (map fst kvs). \<not> isInternalKey k' \<longrightarrow> createKey E k' \<noteq> key"
  proof -
    have "distinct (map fst (rev kvs))"
      using dist by (metis distinct_rev rev_map)
    with mem have "map_of (rev kvs) key = Some v"
      by simp
    then have "\<And>origin1. map_of (fst (processFields E c origin1 kvs [] [])) key = Some v"
      using processFields_internal_key [OF int ne] by simp
    then show ?thesis
      by (simp add: processNodeFields_def obj_get_def Let_def split_beta)
  qed
  have empty: "\<not> matchesIdentifier (createKey E key)"
    if "camelCase E (replaceNonValidChars key) = []"
    using that by (simp add: createKey_def prefixLeadingNumber_def)
  show ?thesis
    using last keys1 keys2 empty
    by (simp add: validKeyChar_replace createKey_def prefixLeadingNumber_no_digit
          prefixLeadingNumber_matches prefixed_not_identifier prefixLeadingNumber_identifier
          prefixLeadingNumber_eq [symmetric] Let_def)
qed

theorem key_sanitation_witness:
  "createKey sample_env ''my-key'' = ''myKey'' \<and> matchesIdentifier ''myKey''
   \<and> createKey sample_env ''42'' = ''_42'' \<and> matchesSanitized ''_42''
   \<and> \<not> matchesIdentifier ''_42''
   \<and> isInternalKey ''__meta'' \<and> (''__meta'', JObj [(''my-key'', JStr ''./a.md'')]) \<in> set meta_fields
   \<and> obj_get (fst (processNodeFields sample_env Post (Some meta_fields) JUndefined)) ''__meta'' =
        JObj [(''my-key'', JStr ''./a.md'')]
   \<and> set (map fst (fst (processNodeFields sample_env Post (Some meta_fields) JUndefined))) =
        {''__meta'', ''myKey''}"
proof -
  have a1: "list_all isAlnum (camelCase sample_env (replaceNonValidChars ''my-key''))"
    and a2: "camelCase sample_env (replaceNonValidChars ''my-key'') \<noteq> []"
    and a3: "\<not> startsWithDigit (camelCase sample_env (replaceNonValidChars ''my-key''))"
    by code_simp+
  have b1: "list_all isAlnum (camelCase sample_env (replaceNonValidChars ''42''))"
    and b2: "startsWithDigit (camelCase sample_env (replaceNonValidChars ''42''))"
    by code_simp+
  have k1: "createKey sample_env ''my-key'' = ''myKey''" by code_simp
  have k2: "createKey sample_env ''42'' = ''_42''" by code_simp
  have i: "isInternalKey ''__meta''" by simp
  have m: "(''__meta'', JObj [(''my-key'', JStr ''./a.md'')]) \<in> set meta_fields"
    by (simp add: meta_fields_def)
  have d: "distinct (map fst meta_fields)"
    by (simp add: meta_fields_def)
  have h: "\<forall>k' \<in> set (map fst meta_fields). \<not> isInternalKey k' \<longrightarrow>
           createKey sample_env k' \<noteq> ''__meta''"
    using k1 by (simp add: meta_fields_def)
  from key_sanitation [where key = "''my-key''" and E = sample_env] a1 a2 a3
  have "matchesIdentifier (createKey sample_env ''my-key'')" by blast
  then have c1: "matchesIdentifier ''myKey''" unfolding k1 .
  from key_sanitation [where key = "''42''" and E = sample_env] b1 b2
  have "matchesSanitized (createKey sample_env ''42'') \<and>
        \<not> matchesIdentifier (createKey sample_env ''42'')" by blast
  then have c2: "matchesSanitized ''_42'' \<and> \<not> matchesIdentifier ''_42''" unfolding k2 .
  from key_sanitation [where key = "''__meta''" and E = sample_env
      and v = "JObj [(''my-key'', JStr ''./a.md'')]" and kvs = meta_fields and c = Post
      and origin' = JUndefined] i m d h
  have c3: "obj_get (fst (processNodeFields sample_env Post (Some meta_fields) JUndefined)) ''__meta'' =
        JObj [(''my-key'', JStr ''./a.md'')]"
    and "set (map fst (fst (processNodeFields sample_env Post (Some meta_fields) JUndefined))) =
     (\<lambda>k. if isInternalKey k then k else createKey sample_env k) ` set (map fst meta_fields)"
    by blast+
  then have c4: "set (map fst (fst (processNodeFields sample_env Post (Some meta_fields) JUndefined))) =
        {''__meta'', ''myKey''}"
    using k1 by (auto simp: meta_fields_def)
  from c1 c2 c3 c4 k1 k2 i m show ?thesis by blast
qed

text \<open>
  The claim as it is written fails: the key \<open>1\<close> is sanitised to \<open>_1\<close> and the empty
  key to the empty key; neither matches \<open>^_?[a-zA-Z][a-zA-Z0-9]*$\<close>, and they are
  the keys of the normalised fields.
\<close>

theorem createKey_leading_digit:
  "\<not> isInternalKey ''1'' \<and> createKey sample_env ''1'' = ''_1''
   \<and> \<not> matchesIdentifier (createKey sample_env ''1'')
   \<and> createKey sample_env [] = [] \<and> \<not> matchesIdentifier (createKey sample_env [])
   \<and> processNodeFields sample_env Post (Some [(''1'', JNum 1), ([], JNum 2)]) JUndefined =
        ([(''_1'', JNum 1), ([], JNum 2)], [])"
  by code_simp

























section \<open>Properties of the store operations\<close>

lemma collection_set_collection:
  "collection (set_collection s t ns) t' = (if t' = t then ns else collection s t')"
  by (simp add: collection_def set_collection_def update_conv')

lemma update_first_map_found:
  "find P xs = Some x \<Longrightarrow> g (f x) = g x \<Longrightarrow> map g (update_first P f xs) = map g xs"
  by (induction xs) (auto split: if_splits)

lemma update_first_map_all:
  "(\<And>x. g (f x) = g x) \<Longrightarrow> map g (update_first P f xs) = map g xs"
  by (induction xs) auto

lemma find_update_first:
  "find P xs = Some x \<Longrightarrow> P (f x) \<Longrightarrow> find P (update_first P f xs) = Some (f x)"
  by (induction xs) (auto split: if_splits)

lemma filter_update_first:
  "(\<And>x. P x \<Longrightarrow> \<not> Q x \<and> \<not> Q (f x)) \<Longrightarrow> filter Q (update_first P f xs) = filter Q xs"
  by (induction xs) auto

lemma find_SomeD: "find P xs = Some x \<Longrightarrow> P x"
  by (induction xs) (auto split: if_splits)

lemma updateNode_framed:
  assumes "getNode c id' s = Some node0"
  shows "\<exists>nk. node_identity nk = node_identity node0 \<and>
           update_outcome c id' node0 s nk (updateNode E c id' opts s)"
proof -
  let ?int = "createInternals E (o_internal opts)"
  let ?n1 = "node0\<lparr>n_internal := ?int\<rparr>"
  show ?thesis
  proof (cases "transformed E opts ?int")
    case (Inl e)
    then have "updateNode E c id' opts s = Inl (e, put_node c id' ?n1 s)"
      using assms by (simp add: updateNode_def Let_def)
    moreover have "node_identity ?n1 = node_identity node0"
      by (simp add: node_identity_def)
    ultimately show ?thesis
      unfolding update_outcome_def by blast
  next
    case (Inr opts')
    obtain fs bt where pn: "processNodeFields E c (o_fields opts') (i_origin ?int) = (fs, bt)"
      by (cases "processNodeFields E c (o_fields opts') (i_origin ?int)")
    let ?n2 = "?n1\<lparr>n_title := js_or (o_title opts') (js_or (obj_get fs ''title'') (n_title ?n1)),
                    n_date := js_or (o_date opts') (js_or (obj_get fs ''date'') (n_date ?n1))\<rparr>"
    show ?thesis
    proof (cases "slugOf E opts' fs (n_title ?n2)")
      case (Inl e)
      then have "updateNode E c id' opts s = Inl (e, put_node c id' ?n2 s)"
        using assms Inr pn by (simp add: updateNode_def Let_def)
      moreover have "node_identity ?n2 = node_identity node0"
        by (simp add: node_identity_def)
      ultimately show ?thesis
        unfolding update_outcome_def by blast
    next
      case slug: (Inr slug)
      let ?n3 = "?n2\<lparr>n_slug := slug,
                      n_content := js_or (o_content opts') (js_or (obj_get fs ''content'') (n_content ?n2)),
                      n_excerpt := js_or (o_excerpt opts') (js_or (obj_get fs ''excerpt'') (n_excerpt ?n2)),
                      n_internal := ?int\<rparr>"
      show ?thesis
      proof (cases "pathOf E c opts' ?n3")
        case (Inl e)
        then have "updateNode E c id' opts s = Inl (e, put_node c id' ?n3 s)"
          using assms Inr pn slug by (simp add: updateNode_def Let_def)
        moreover have "node_identity ?n3 = node_identity node0"
          by (simp add: node_identity_def)
        ultimately show ?thesis
          unfolding update_outcome_def by blast
      next
        case p: (Inr p)
        let ?n4 = "?n3\<lparr>n_path := p, n_fields := fs\<rparr>"
        have id4: "node_identity ?n4 = node_identity node0"
          by (simp add: node_identity_def)
        show ?thesis
        proof (cases "list_ex (\<lambda>e. e_uid e = n_uid node0) (index s)")
          case False
          then have "updateNode E c id' opts s = Inl (TypeError, put_node c id' ?n4 s)"
            using assms Inr pn slug p by (simp add: updateNode_def Let_def)
          with id4 show ?thesis
            unfolding update_outcome_def by blast
        next
          case True
          then have "updateNode E c id' opts s =
              Inr (?n4, (put_node c id' ?n4 s)\<lparr>index :=
                   update_first (\<lambda>e. e_uid e = n_uid node0)
                     (\<lambda>e. e\<lparr>e_path := n_path ?n4, e_belongsTo := bt\<rparr>) (index s),
                 events := events s @ [(typeName c, Some ?n4, Some node0)]\<rparr>)"
            using assms Inr pn slug p by (simp add: updateNode_def Let_def)
          with id4 show ?thesis
            unfolding update_outcome_def by blast
        qed
      qed
    qed
  qed
qed


lemma collection_put_node:
  "collection (put_node c id' n s) t =
     (if t = typeName c
      then update_first (\<lambda>m. n_id m = id') (\<lambda>_. n) (collection s (typeName c))
      else collection s t)"
  by (simp add: put_node_def collection_set_collection)

lemma index_put_node: "index (put_node c id' n s) = index s"
  by (simp add: put_node_def set_collection_def)

lemma collection_index_events_update:
  "collection (s\<lparr>index := i, events := ev\<rparr>) t = collection s t"
  by (simp add: collection_def)

lemma put_node_identity:
  assumes "getNode c id' s = Some node0" and "node_identity nk = node_identity node0"
  shows "map node_identity (collection (put_node c id' nk s) t) = map node_identity (collection s t)"
    and "getNode c id' (put_node c id' nk s) = Some nk"
proof -
  from assms(1) have f: "find (\<lambda>m. n_id m = id') (collection s (typeName c)) = Some node0"
    by (simp add: getNode_def)
  then have "n_id node0 = id'" by (rule find_SomeD)
  with assms(2) have idk: "n_id nk = id'" by (simp add: node_identity_def)
  show "map node_identity (collection (put_node c id' nk s) t) = map node_identity (collection s t)"
    using update_first_map_found [OF f, of node_identity "\<lambda>_. nk"] assms(2)
    by (simp add: collection_put_node)
  show "getNode c id' (put_node c id' nk s) = Some nk"
    using find_update_first [OF f, of "\<lambda>_. nk"] idk
    by (simp add: getNode_def collection_put_node)
qed

text \<open>
  Claim C10. For every existing node and every options, whether \<open>updateNode\<close>
  returns or throws, every node of every collection has afterwards the \<open>id\<close>,
  \<open>uid\<close> and \<open>typeName\<close> it had, and every index entry is what it was but for its
  \<open>path\<close> and \<open>belongsTo\<close>. When \<open>updateNode\<close> returns, the node it returns has the
  identity of the existing node and is the node of that id in the store, and the
  index is the old one with \<open>path\<close> and \<open>belongsTo\<close> assigned in the first entry
  that has the \<open>uid\<close> of the node.
\<close>

theorem updateNode_identity_frame:
  assumes "getNode c id' s = Some node0"
  shows "(\<forall>t. map node_identity (collection (final_state (updateNode E c id' opts s)) t) =
              map node_identity (collection s t))
     \<and> map entry_frame (index (final_state (updateNode E c id' opts s))) = map entry_frame (index s)
     \<and> (\<forall>n' s'. updateNode E c id' opts s = Inr (n', s') \<longrightarrow>
           node_identity n' = node_identity node0 \<and> getNode c id' s' = Some n' \<and>
           (\<exists>b. index s' =
                  update_first (\<lambda>e. e_uid e = n_uid node0)
                    (\<lambda>e. e\<lparr>e_path := n_path n', e_belongsTo := b\<rparr>) (index s)))"
proof -
  let ?r = "updateNode E c id' opts s"
  from updateNode_framed [OF assms, of E opts] obtain nk where
    idk: "node_identity nk = node_identity node0" and
    cases: "?r = Inl (TypeError, s) \<or> (\<exists>e. ?r = Inl (e, put_node c id' nk s)) \<or>
         (\<exists>b. ?r = Inr (nk, (put_node c id' nk s)\<lparr>index :=
                   update_first (\<lambda>e. e_uid e = n_uid node0)
                     (\<lambda>e. e\<lparr>e_path := n_path nk, e_belongsTo := b\<rparr>) (index s),
                 events := events s @ [(typeName c, Some nk, Some node0)]\<rparr>))"
    unfolding update_outcome_def by blast
  note pn = put_node_identity [OF assms idk]
  have ef: "map entry_frame (update_first (\<lambda>e. e_uid e = n_uid node0)
               (\<lambda>e. e\<lparr>e_path := p, e_belongsTo := b\<rparr>) (index s)) = map entry_frame (index s)" for p b
    by (rule update_first_map_all) (simp add: entry_frame_def)
  from cases show ?thesis
  proof (elim disjE exE)
    assume "?r = Inl (TypeError, s)"
    then show ?thesis by (simp add: final_state_def)
  next
    fix e assume "?r = Inl (e, put_node c id' nk s)"
    then show ?thesis by (simp add: final_state_def pn index_put_node)
  next
    fix b assume "?r = Inr (nk, (put_node c id' nk s)\<lparr>index :=
                   update_first (\<lambda>e. e_uid e = n_uid node0)
                     (\<lambda>e. e\<lparr>e_path := n_path nk, e_belongsTo := b\<rparr>) (index s),
                 events := events s @ [(typeName c, Some nk, Some node0)]\<rparr>)"
    then show ?thesis
      using idk pn(2)
      by (auto simp: final_state_def pn(1) ef collection_index_events_update getNode_def)
  qed
qed


theorem updateNode_identity_frame_witness:
  "getNode Post (JStr ''a'') docs_store = Some docs_node
   \<and> (\<exists>s'. updateNode sample_env Post (JStr ''a'') retitle_options docs_store = Inr (retitled_node, s')
         \<and> getNode Post (JStr ''a'') s' = Some retitled_node
         \<and> map node_identity (collection s' ''Post'') = [(JStr ''a'', ''md5:Posta'', ''Post'')]
         \<and> map entry_frame (index s') = map entry_frame (index docs_store))
   \<and> node_identity retitled_node = node_identity docs_node"
proof -
  have h: "getNode Post (JStr ''a'') docs_store = Some docs_node"
    by code_simp
  have "map_sum fst fst (updateNode sample_env Post (JStr ''a'') retitle_options docs_store) =
          Inr retitled_node"
    by code_simp
  then obtain s' where
    u: "updateNode sample_env Post (JStr ''a'') retitle_options docs_store = Inr (retitled_node, s')"
    by (cases "updateNode sample_env Post (JStr ''a'') retitle_options docs_store") auto
  have c: "map node_identity (collection docs_store ''Post'') = [(JStr ''a'', ''md5:Posta'', ''Post'')]"
    by code_simp
  from updateNode_identity_frame [OF h, of sample_env retitle_options] u c
  have "getNode Post (JStr ''a'') s' = Some retitled_node
         \<and> map node_identity (collection s' ''Post'') = [(JStr ''a'', ''md5:Posta'', ''Post'')]
         \<and> map entry_frame (index s') = map entry_frame (index docs_store)
         \<and> node_identity retitled_node = node_identity docs_node"
    by (simp add: final_state_def)
  with h u show ?thesis
    by (intro conjI exI [of _ s']) simp_all
qed

lemma index_register [simp]: "index (register_mimeType c m s) = index s"
  and collections_register [simp]: "collections (register_mimeType c m s) = collections s"
  and events_register [simp]: "events (register_mimeType c m s) = events s"
  and warnings_register [simp]: "warnings (register_mimeType c m s) = warnings s"
  by (simp_all add: register_mimeType_def)

lemma collection_register [simp]: "collection (register_mimeType c m s) t = collection s t"
  by (simp add: collection_def)

lemma e_path_entry_of [simp]: "e_path (entry_of n b) = n_path n"
  by (simp add: entry_of_def)









section \<open>Updating a node with its own values\<close>




















end
